theory Spec2Isabelle
  imports Main "HOL-Library.AList"
begin

unbundle bit_operations_syntax

section \<open>JavaScript values, errors and promises\<close>

text \<open>
  The SDK is TypeScript compiled to JavaScript. Its public functions check the run-time
  type of their arguments (\<^verbatim>\<open>typeof x !== 'string'\<close>), so arguments are modelled as
  untyped JavaScript values. A JavaScript string is the list of its UTF-16 code units;
  \<open>str\<close> writes one from its ASCII text. Names fixed by the program text (property names,
  method names, names of error classes) are HOL strings. Numbers carry an integer: the
  SDK functions modelled here only test a number and pass it on.
\<close>

type_synonym jsstring = "nat list"

definition str :: "string \<Rightarrow> jsstring" where
  "str s = map of_char s"

record js_error =
  err_name :: string
  err_message :: jsstring

definition Error :: "jsstring \<Rightarrow> js_error" where
  "Error m = \<lparr>err_name = ''Error'', err_message = m\<rparr>"

definition TypeError :: "jsstring \<Rightarrow> js_error" where
  "TypeError m = \<lparr>err_name = ''TypeError'', err_message = m\<rparr>"

definition undefined_property :: "jsstring \<Rightarrow> js_error" where
  \<comment> \<open>what the engine throws for \<^verbatim>\<open>undefined[p]\<close>; 39 is the quotation mark around the name\<close>
  "undefined_property p =
     TypeError (str ''Cannot read properties of undefined (reading '' @ [39] @ p @ [39] @ str '')'')"

definition null_property :: "jsstring \<Rightarrow> js_error" where
  \<comment> \<open>what the engine throws for \<^verbatim>\<open>null[p]\<close>\<close>
  "null_property p =
     TypeError (str ''Cannot read properties of null (reading '' @ [39] @ p @ [39] @ str '')'')"

datatype jsval =
    JUndefined
  | JNull
  | JBoolean bool
  | JNumber int
  | JNaN
  | JString jsstring
  | JBigNumber int
  | JArray "jsval list"
  | JObject bool "(string \<times> jsval) list"
  | JError js_error
  | JFunction string string

text \<open>
  \<open>JObject e kvs\<close> is a plain object with own properties \<open>kvs\<close>; \<open>e\<close> tells whether it is
  extensible (\<open>False\<close> after \<^verbatim>\<open>Object.freeze\<close>, \<^verbatim>\<open>seal\<close> or \<^verbatim>\<open>preventExtensions\<close>).
  \<open>JBigNumber\<close> is an ethers.js BigNumber, \<open>JFunction m f\<close> the function \<open>f\<close> defined in
  module \<open>m\<close>.
\<close>

fun typeof :: "jsval \<Rightarrow> string" where
  "typeof JUndefined = ''undefined''"
| "typeof JNull = ''object''"
| "typeof (JBoolean _) = ''boolean''"
| "typeof (JNumber _) = ''number''"
| "typeof JNaN = ''number''"
| "typeof (JString _) = ''string''"
| "typeof (JBigNumber _) = ''object''"
| "typeof (JArray _) = ''object''"
| "typeof (JObject _ _) = ''object''"
| "typeof (JError _) = ''object''"
| "typeof (JFunction _ _) = ''function''"

fun truthy :: "jsval \<Rightarrow> bool" where
  "truthy JUndefined = False"
| "truthy JNull = False"
| "truthy (JBoolean b) = b"
| "truthy (JNumber n) = (n \<noteq> 0)"
| "truthy JNaN = False"
| "truthy (JString s) = (s \<noteq> [])"
| "truthy _ = True"

fun isBigNumber :: "jsval \<Rightarrow> bool" where
  "isBigNumber (JBigNumber _) = True"
| "isBigNumber _ = False"

fun isExtensible :: "jsval \<Rightarrow> bool" where
  \<comment> \<open>\<^verbatim>\<open>Object.isExtensible\<close>: false on primitives; ethers.js freezes its BigNumbers\<close>
  "isExtensible (JObject e _) = e"
| "isExtensible (JArray _) = True"
| "isExtensible (JError _) = True"
| "isExtensible (JFunction _ _) = True"
| "isExtensible _ = False"

fun get_property :: "jsval \<Rightarrow> string \<Rightarrow> jsval" where
  \<comment> \<open>\<^verbatim>\<open>o.k\<close> on a value other than undefined and null: any name \<open>k\<close> on a plain object,
     one of \<^verbatim>\<open>v\<close>, \<^verbatim>\<open>r\<close>, \<^verbatim>\<open>s\<close> and \<^verbatim>\<open>allocated\<close>, which no other value has, on
     the others; a missing property reads as undefined\<close>
  "get_property (JObject _ kvs) k = (case map_of kvs k of None \<Rightarrow> JUndefined | Some v \<Rightarrow> v)"
| "get_property _ k = JUndefined"

fun index_property :: "jsval \<Rightarrow> nat \<Rightarrow> js_error + jsval" where
  \<comment> \<open>\<^verbatim>\<open>o[0]\<close> and \<^verbatim>\<open>o[1]\<close>: an element of a list, a character of a string, the property
     of that name of an object; it throws on undefined and null\<close>
  "index_property JUndefined i = Inl (undefined_property (str (if i = 0 then ''0'' else ''1'')))"
| "index_property JNull i = Inl (null_property (str (if i = 0 then ''0'' else ''1'')))"
| "index_property (JString s) i = Inr (if i < length s then JString [s ! i] else JUndefined)"
| "index_property (JArray xs) i = Inr (if i < length xs then xs ! i else JUndefined)"
| "index_property (JObject e kvs) i =
     Inr (get_property (JObject e kvs) (if i = 0 then ''0'' else ''1''))"
| "index_property _ i = Inr JUndefined"

text \<open>
  What a call into a library can do: throw before it returns, return a promise that
  rejects, or return a promise that resolves. An \<^verbatim>\<open>async\<close> function of the SDK never
  throws: its promise is rejected (\<open>Inl\<close>) or fulfilled (\<open>Inr\<close>).
\<close>

datatype outcome = Throws js_error | Rejects js_error | Resolves jsval

type_synonym promise = "js_error + jsval"

fun awaited :: "outcome \<Rightarrow> promise" where
  \<comment> \<open>\<^verbatim>\<open>await f(...)\<close>, and \<^verbatim>\<open>return f(...)\<close> outside any \<^verbatim>\<open>try\<close>\<close>
  "awaited (Throws e) = Inl e"
| "awaited (Rejects e) = Inl e"
| "awaited (Resolves v) = Inr v"

definition prefixed :: "jsstring \<Rightarrow> js_error \<Rightarrow> js_error" where
  \<comment> \<open>\<^verbatim>\<open>e.message = errorPrefix + e.message\<close>\<close>
  "prefixed errorPrefix e = e\<lparr>err_message := errorPrefix @ err_message e\<rparr>"

fun returned_in_try :: "jsstring \<Rightarrow> outcome \<Rightarrow> promise" where
  \<comment> \<open>\<^verbatim>\<open>try { return f(...) } catch (e) { e.message = errorPrefix + e.message; return e }\<close>:
     the promise is returned without \<^verbatim>\<open>await\<close>, so only a synchronous throw is caught\<close>
  "returned_in_try errorPrefix (Throws e) = Inr (JError (prefixed errorPrefix e))"
| "returned_in_try errorPrefix (Rejects e) = Inl e"
| "returned_in_try errorPrefix (Resolves v) = Inr v"

section \<open>Strings\<close>

text \<open>
  \<^verbatim>\<open>toLowerCase\<close> and \<^verbatim>\<open>toUpperCase\<close> follow the Unicode case mapping. On a string of code
  units below 256 it works unit by unit and is written out here: the letters of ASCII
  and of Latin-1 (192 to 222 and 224 to 254, without the two operators 215 and 247),
  and the three small letters whose capital is not one unit below 256. On any other
  string it is the mapping of the run time, a parameter of the functions that use it.
\<close>

definition lower_unit :: "nat \<Rightarrow> nat" where
  "lower_unit u =
     (if (65 \<le> u \<and> u \<le> 90) \<or> (192 \<le> u \<and> u \<le> 222 \<and> u \<noteq> 215) then u + 32 else u)"

definition upper_unit :: "nat \<Rightarrow> jsstring" where
  "upper_unit u =
     (if (97 \<le> u \<and> u \<le> 122) \<or> (224 \<le> u \<and> u \<le> 254 \<and> u \<noteq> 247) then [u - 32]
      else if u = 223 then [83, 83]
      else if u = 181 then [924]
      else if u = 255 then [376]
      else [u])"

definition parseInt16 :: "char \<Rightarrow> nat option" where
  \<comment> \<open>\<^verbatim>\<open>parseInt(c, 16)\<close> on one character of the digest; \<open>None\<close> is NaN\<close>
  "parseInt16 c =
     (let n = (of_char c :: nat)
      in if 48 \<le> n \<and> n \<le> 57 then Some (n - 48)
         else if 97 \<le> n \<and> n \<le> 102 then Some (n - 87)
         else if 65 \<le> n \<and> n \<le> 70 then Some (n - 55)
         else None)"

section \<open>Keccak-256\<close>

text \<open>
  \<^verbatim>\<open>keccak256\<close> is \<^verbatim>\<open>ethers.utils.keccak256\<close>: the Keccak-256 digest of a byte array, as a
  string \<^verbatim>\<open>0x\<close> followed by 64 lower-case hexadecimal digits. The sponge has rate 136
  bytes and uses the original Keccak padding. A lane is a 64-bit word, written as a
  natural number below \<open>2 ^ 64\<close>; the state is the list of its 25 lanes, lane \<open>(x, y)\<close> at
  index \<open>x + 5 * y\<close>.
\<close>

type_synonym lane = nat

definition mask64 :: lane where
  "mask64 = 0xFFFFFFFFFFFFFFFF"

definition rotl64 :: "lane \<Rightarrow> nat \<Rightarrow> lane" where
  "rotl64 w n = (push_bit n w AND mask64) OR drop_bit (64 - n) w"

definition round_constants :: "lane list" where
  "round_constants =
    [0x0000000000000001, 0x0000000000008082, 0x800000000000808A, 0x8000000080008000,
     0x000000000000808B, 0x0000000080000001, 0x8000000080008081, 0x8000000000008009,
     0x000000000000008A, 0x0000000000000088, 0x0000000080008009, 0x000000008000000A,
     0x000000008000808B, 0x800000000000008B, 0x8000000000008089, 0x8000000000008003,
     0x8000000000008002, 0x8000000000000080, 0x000000000000800A, 0x800000008000000A,
     0x8000000080008081, 0x8000000000008080, 0x0000000080000001, 0x8000000080008008]"

definition rho_offsets :: "nat list" where
  "rho_offsets = [0, 1, 62, 28, 27,  36, 44, 6, 55, 20,  3, 10, 43, 25, 39,
                  41, 45, 15, 21, 8,  18, 2, 61, 56, 14]"

definition theta_c :: "lane list \<Rightarrow> lane list" where
  \<comment> \<open>column parities\<close>
  "theta_c a =
     map (\<lambda>x. a ! x XOR a ! (x + 5) XOR a ! (x + 10) XOR a ! (x + 15) XOR a ! (x + 20))
       [0, 1, 2, 3, 4]"

definition theta_d :: "lane list \<Rightarrow> lane list" where
  \<comment> \<open>\<open>D[x] = C[x - 1] XOR rot(C[x + 1], 1)\<close>, indices modulo 5\<close>
  "theta_d c =
     map (\<lambda>(p, n). c ! p XOR rotl64 (c ! n) 1) [(4, 1), (0, 2), (1, 3), (2, 4), (3, 0)]"

definition theta_apply :: "lane list \<Rightarrow> lane list \<Rightarrow> lane list" where
  "theta_apply a d =
     map (\<lambda>(l, x). l XOR d ! x)
       (zip a [0, 1, 2, 3, 4, 0, 1, 2, 3, 4, 0, 1, 2, 3, 4, 0, 1, 2, 3, 4, 0, 1, 2, 3, 4])"

definition theta :: "lane list \<Rightarrow> lane list" where
  "theta a = theta_apply a (theta_d (theta_c a))"

definition pi_rho_table :: "(nat \<times> nat) list" where
  \<comment> \<open>for each target index, the source lane and its rotation\<close>
  "pi_rho_table = [(0, 0), (6, 44), (12, 43), (18, 21), (24, 14),
      (3, 28), (9, 20), (10, 3), (16, 45), (22, 61),
      (1, 1), (7, 6), (13, 25), (19, 8), (20, 18),
      (4, 27), (5, 36), (11, 10), (17, 15), (23, 56),
      (2, 62), (8, 55), (14, 39), (15, 41), (21, 2)]"

definition rho_pi :: "lane list \<Rightarrow> lane list" where
  "rho_pi a = map (\<lambda>(src, r). rotl64 (a ! src) r) pi_rho_table"

definition chi_table :: "(nat \<times> nat \<times> nat) list" where
  \<comment> \<open>for each index \<open>(x, y)\<close>, the indices of \<open>(x, y)\<close>, \<open>(x + 1, y)\<close> and \<open>(x + 2, y)\<close>\<close>
  "chi_table = [(0, 1, 2), (1, 2, 3), (2, 3, 4), (3, 4, 0), (4, 0, 1),
      (5, 6, 7), (6, 7, 8), (7, 8, 9), (8, 9, 5), (9, 5, 6),
      (10, 11, 12), (11, 12, 13), (12, 13, 14), (13, 14, 10), (14, 10, 11),
      (15, 16, 17), (16, 17, 18), (17, 18, 19), (18, 19, 15), (19, 15, 16),
      (20, 21, 22), (21, 22, 23), (22, 23, 24), (23, 24, 20), (24, 20, 21)]"

definition chi :: "lane list \<Rightarrow> lane list" where
  "chi b = map (\<lambda>(i, j, k). b ! i XOR ((b ! j XOR mask64) AND b ! k)) chi_table"

definition iota :: "lane \<Rightarrow> lane list \<Rightarrow> lane list" where
  "iota rc a = (case a of [] \<Rightarrow> [] | l # ls \<Rightarrow> (l XOR rc) # ls)"

definition keccak_round :: "lane list \<Rightarrow> lane \<Rightarrow> lane list" where
  "keccak_round a rc = iota rc (chi (rho_pi (theta a)))"

definition keccak_f :: "lane list \<Rightarrow> lane list" where
  "keccak_f a = foldl keccak_round a round_constants"

fun lane_of_bytes :: "nat list \<Rightarrow> lane" where
  \<comment> \<open>little-endian\<close>
  "lane_of_bytes [] = 0"
| "lane_of_bytes (b # bs) = b + 256 * lane_of_bytes bs"

definition lanes_of_block :: "nat list \<Rightarrow> lane list" where
  \<comment> \<open>the 17 lanes of a 136-byte block, then the 8 lanes of the capacity\<close>
  "lanes_of_block bs =
     map (\<lambda>k. lane_of_bytes (take 8 (drop k bs)))
       [0, 8, 16, 24, 32, 40, 48, 56, 64, 72, 80, 88, 96, 104, 112, 120, 128]
     @ [0, 0, 0, 0, 0, 0, 0, 0]"

definition bytes_of_lane :: "lane \<Rightarrow> nat list" where
  "bytes_of_lane w =
     map (\<lambda>k. drop_bit k w AND 0xFF) [0, 8, 16, 24, 32, 40, 48, 56]"

definition pad :: "nat list \<Rightarrow> nat list" where
  \<comment> \<open>Keccak padding \<^verbatim>\<open>0x01 0x00 ... 0x80\<close> to a multiple of 136 bytes\<close>
  "pad m =
     (let n = 136 - length m mod 136
      in if n = 1 then m @ [0x81] else m @ [0x01] @ replicate (n - 2) 0 @ [0x80])"

function blocks_of :: "nat list \<Rightarrow> nat list list" where
  "blocks_of bs = (if bs = [] then [] else take 136 bs # blocks_of (drop 136 bs))"
  by pat_completeness auto
termination
  by (relation "measure length") auto

definition absorb :: "lane list \<Rightarrow> nat list \<Rightarrow> lane list" where
  "absorb st block = keccak_f (map (\<lambda>(s, l). s XOR l) (zip st (lanes_of_block block)))"

definition keccak256_bytes :: "nat list \<Rightarrow> nat list" where
  "keccak256_bytes m =
     concat (map bytes_of_lane
       (take 4 (foldl absorb
          [0, 0, 0, 0, 0, 0, 0, 0, 0, 0, 0, 0, 0, 0, 0, 0, 0, 0, 0, 0, 0, 0, 0, 0, 0]
          (blocks_of (pad m)))))"

definition hexdigit :: "nat \<Rightarrow> char" where
  "hexdigit n = ''0123456789abcdef'' ! n"

definition hexlify :: "nat list \<Rightarrow> string" where
  "hexlify bs = ''0x'' @ concat (map (\<lambda>b. [hexdigit (b div 16), hexdigit (b mod 16)]) bs)"

definition keccak256 :: "nat list \<Rightarrow> string" where
  "keccak256 bytes = hexlify (keccak256_bytes bytes)"

section \<open>Configuration, providers and the client library\<close>

text \<open>
  The modules \<^verbatim>\<open>constants.ts\<close>, \<^verbatim>\<open>eth.ts\<close> and \<^verbatim>\<open>EIP712.ts\<close> are kept abstract. The tables of
  the first are a parameter \<open>K\<close> of every function: \<open>address\<close> maps a network name to the
  table from contract or vToken name to address, \<open>vTokens\<close> lists the recognised vToken
  symbols, \<open>decimals\<close> is the initial content of the shared decimals object. The functions
  of the other two, and the conversions of the JavaScript run time that are not written
  out here, are the parameter \<open>L\<close>.
\<close>

record constants =
  address :: "(jsstring \<times> (jsstring \<times> jsstring) list) list"
  vTokens :: "jsstring list"
  decimals :: "(string \<times> int) list"

record network =
  net_id :: int
  net_name :: jsstring

record provider =
  p_id :: nat
  p_address :: jsval
  p_getAddress :: "(js_error + jsval) option"
  p_getSigner :: "nat option"

text \<open>
  A provider as the SDK sees it: its identity as an object, its \<open>address\<close> property, what awaiting its \<open>getAddress\<close>
  method gives (\<open>None\<close>: no such method), and the signer its \<open>getSigner\<close> method returns.
\<close>

datatype signer = Signer nat | ProviderItself provider

datatype optval = Val jsval | ProviderObject provider | Abi string

type_synonym options = "(string \<times> optval) list"

fun truthy_opt :: "optval \<Rightarrow> bool" where
  "truthy_opt (Val v) = truthy v"
| "truthy_opt _ = True"

definition option_of :: "options \<Rightarrow> string \<Rightarrow> optval" where
  "option_of opts k = (case map_of opts k of None \<Rightarrow> Val JUndefined | Some v \<Rightarrow> v)"

definition spread :: "('k \<times> 'v) list \<Rightarrow> ('k \<times> 'v) list \<Rightarrow> ('k \<times> 'v) list" where
  \<comment> \<open>\<^verbatim>\<open>{ ...obj, ...src }\<close>: a key of \<open>src\<close> replaces the value in place or is appended\<close>
  "spread obj src = foldl (\<lambda>acc (k, v). AList.update k v acc) obj src"

record call =
  c_address :: jsval
  c_method :: string
  c_parameters :: "jsval list"
  c_options :: options

record eip712_domain =
  d_name :: string
  d_chainId :: int
  d_verifyingContract :: jsval

record delegation_message =
  m_delegatee :: jsval
  m_nonce :: jsval
  m_expiry :: jsval

record sign_request =
  s_domain :: eip712_domain
  s_primaryType :: string
  s_message :: delegation_message
  s_types :: "(string \<times> (string \<times> string) list) list"
  s_signer :: signer

datatype event = Read call | Trx call | Sign sign_request

text \<open>
  A function of the SDK returns the requests it made to the client library, in order,
  and the state of its promise.
\<close>

type_synonym result = "event list \<times> promise"

record lib =
  eth_read :: "call \<Rightarrow> outcome"
  eth_trx :: "call \<Rightarrow> outcome"
  sign :: "sign_request \<Rightarrow> outcome"
  createProvider :: "options \<Rightarrow> provider"
  getProviderNetwork :: "provider \<Rightarrow> js_error + network"
  toLowerCase_wide :: "jsstring \<Rightarrow> jsstring"
  toUpperCase_wide :: "jsstring \<Rightarrow> jsstring"
  toString :: "jsval \<Rightarrow> js_error + jsstring"
  concatenated :: "jsval \<Rightarrow> js_error + jsstring"
  exceeds_one :: "jsval \<Rightarrow> js_error + bool"
  arity :: "string \<Rightarrow> string \<Rightarrow> nat"
  unaryPlus :: "jsval \<Rightarrow> jsval"
  times1e18 :: "jsval \<Rightarrow> jsval"
  bigNumberFrom :: "jsstring \<Rightarrow> js_error + jsval"

text \<open>
  \<open>toLowerCase_wide L s\<close> and \<open>toUpperCase_wide L s\<close> are the case mappings on a string
  with a code unit above 255. \<open>toString L v\<close> is \<^verbatim>\<open>v.toString()\<close> for a value that has the
  method and is no string, \<open>concatenated L v\<close> is the string that \<^verbatim>\<open>'' + v\<close> makes of a value
  that is no string, \<open>exceeds_one L v\<close> is \<^verbatim>\<open>v > 1\<close> for a string or an object, each with
  the error it can throw. \<open>arity L m f\<close> is the \<^verbatim>\<open>length\<close> of the function \<open>f\<close> of module
  \<open>m\<close>. \<open>unaryPlus L v\<close> is \<^verbatim>\<open>+v\<close> for a string, a number or a BigNumber, \<open>times1e18 L v\<close>
  is \<^verbatim>\<open>v * Math.pow(10, 18)\<close> in IEEE arithmetic and \<open>bigNumberFrom L s\<close> is
  \<^verbatim>\<open>ethers.BigNumber.from(s)\<close>.
\<close>

definition toLowerCase :: "lib \<Rightarrow> jsstring \<Rightarrow> jsstring" where
  "toLowerCase L s = (if \<forall>u \<in> set s. u < 256 then map lower_unit s else toLowerCase_wide L s)"

definition toUpperCase :: "lib \<Rightarrow> jsstring \<Rightarrow> jsstring" where
  "toUpperCase L s =
     (if \<forall>u \<in> set s. u < 256 then concat (map upper_unit s) else toUpperCase_wide L s)"

definition method_toString :: "lib \<Rightarrow> jsval \<Rightarrow> js_error + jsstring" where
  \<comment> \<open>\<^verbatim>\<open>v.toString()\<close>\<close>
  "method_toString L v =
     (case v of
        JUndefined \<Rightarrow> Inl (undefined_property (str ''toString''))
      | JNull \<Rightarrow> Inl (null_property (str ''toString''))
      | JString s \<Rightarrow> Inr s
      | _ \<Rightarrow> toString L v)"

definition string_of :: "lib \<Rightarrow> jsval \<Rightarrow> js_error + jsstring" where
  \<comment> \<open>the operand \<open>v\<close> of a string concatenation \<^verbatim>\<open>'...' + v\<close>\<close>
  "string_of L v = (case v of JString s \<Rightarrow> Inr s | _ \<Rightarrow> concatenated L v)"

definition greater_than_one :: "lib \<Rightarrow> jsval \<Rightarrow> js_error + bool" where
  \<comment> \<open>\<^verbatim>\<open>v > 1\<close>: undefined and NaN compare false, null counts as 0, a boolean as 0 or 1\<close>
  "greater_than_one L v =
     (case v of
        JNumber n \<Rightarrow> Inr (1 < n)
      | JNaN \<Rightarrow> Inr False
      | JUndefined \<Rightarrow> Inr False
      | JNull \<Rightarrow> Inr False
      | JBoolean b \<Rightarrow> Inr False
      | _ \<Rightarrow> exceeds_one L v)"

section \<open>The EIP-55 checksum of \<^verbatim>\<open>ucore.ts\<close>\<close>

fun apply_checksum :: "lib \<Rightarrow> string \<Rightarrow> jsstring \<Rightarrow> jsstring" where
  \<comment> \<open>the second loop of \<^verbatim>\<open>toChecksumAddress\<close>: \<open>hash[i]\<close> against \<open>_address[i]\<close>;
     past the end of the hash \<^verbatim>\<open>parseInt(undefined, 16)\<close> is NaN and the character is kept\<close>
  "apply_checksum L hash [] = []"
| "apply_checksum L [] (u # us) = u # us"
| "apply_checksum L (h # hs) (u # us) =
     (if (case parseInt16 h of None \<Rightarrow> False | Some n \<Rightarrow> 8 \<le> n) then toUpperCase L [u] else [u])
     @ apply_checksum L hs us"

definition toChecksumAddress :: "lib \<Rightarrow> jsstring \<Rightarrow> js_error + jsstring" where
  \<comment> \<open>\<open>chars[i].charCodeAt(0)\<close> throws when the lower-cased string has fewer than 40 code
     units after its first two; the \<^verbatim>\<open>Uint8Array\<close> keeps the low byte of each code unit\<close>
  "toChecksumAddress L addr =
     (let chars = drop 2 (toLowerCase L addr)
      in if length chars < 40 then Inl (undefined_property (str ''charCodeAt''))
         else Inr (apply_checksum L (keccak256 (map (\<lambda>u. u mod 256) (take 40 chars))) addr))"

definition address_argument :: "lib \<Rightarrow> jsstring \<Rightarrow> jsval \<Rightarrow> js_error + jsstring" where
  \<comment> \<open>the check every function with an \<open>_address\<close> argument starts with: the type test,
     then \<^verbatim>\<open>toChecksumAddress\<close> inside \<^verbatim>\<open>try\<close>\<close>
  "address_argument L errorPrefix addr =
     (case addr of
        JString s \<Rightarrow>
          (case toChecksumAddress L s of
             Inl e \<Rightarrow> Inl (Error (errorPrefix @ str ''Argument `_address` must be a valid Ethereum address.''))
           | Inr a \<Rightarrow> Inr a)
      | _ \<Rightarrow> Inl (Error (errorPrefix @ str ''Argument `_address` must be a string.'')))"

section \<open>Instances\<close>

record ucore_instance =
  inst_originalProvider :: optval
  inst_provider :: provider
  inst_networkPromise :: "(js_error + network) option"
  inst_network :: "network option"
  inst_decimals :: "nat option"
  inst_members :: "(string \<times> jsval) list"

text \<open>
  The fields are \<^verbatim>\<open>_originalProvider\<close>, \<^verbatim>\<open>_provider\<close>, \<^verbatim>\<open>_networkPromise\<close> (\<open>Some r\<close>
  while the property exists, \<open>r\<close> being what the promise settles to), \<^verbatim>\<open>_network\<close>,
  \<^verbatim>\<open>decimals\<close> (a reference into the store) and the function-valued properties.
\<close>

definition decimals_ref :: nat where
  \<comment> \<open>where the module-level object \<^verbatim>\<open>decimals\<close> of \<^verbatim>\<open>constants.ts\<close> lives\<close>
  "decimals_ref = 0"

type_synonym store = "nat \<Rightarrow> (string \<times> int) list"

definition initial_store :: "constants \<Rightarrow> store" where
  "initial_store K = (\<lambda>r. if r = decimals_ref then decimals K else [])"

definition on_network :: "network \<Rightarrow> ucore_instance \<Rightarrow> ucore_instance" where
  \<comment> \<open>what the callback of \<^verbatim>\<open>index.ts\<close> does to the instance's own properties\<close>
  "on_network n u =
     u\<lparr>inst_decimals := Some decimals_ref, inst_networkPromise := None, inst_network := Some n\<rparr>"

definition network_resolved :: "network \<Rightarrow> store \<times> ucore_instance \<Rightarrow> store \<times> ucore_instance" where
  \<comment> \<open>the callback: \<^verbatim>\<open>instance.decimals = decimals\<close> stores the reference, not a copy, and
     the two assignments write through it\<close>
  "network_resolved n = (\<lambda>(h, u).
     (let u' = on_network n u;
          h' = (if net_id n = 56 \<or> net_name n = str ''mainnet''
                then (case inst_decimals u' of
                        None \<Rightarrow> h
                      | Some r \<Rightarrow> h(r := AList.update ''USDT'' 18 (AList.update ''USDC'' 18 (h r))))
                else h)
      in (h', u')))"

definition netId :: "ucore_instance \<Rightarrow> js_error + ucore_instance" where
  \<comment> \<open>\<^verbatim>\<open>helpers.ts\<close>: the instance as the caller finds it when the \<^verbatim>\<open>await\<close> returns\<close>
  "netId u =
     (case inst_networkPromise u of
        None \<Rightarrow> Inr u
      | Some (Inl e) \<Rightarrow> Inl e
      | Some (Inr n) \<Rightarrow> Inr (on_network n u))"

definition table_entry :: "(jsstring \<times> jsstring) list \<Rightarrow> jsstring \<Rightarrow> jsval" where
  \<comment> \<open>\<^verbatim>\<open>table[key]\<close>: undefined when the table has no such key\<close>
  "table_entry t key = (case map_of t key of None \<Rightarrow> JUndefined | Some a \<Rightarrow> JString a)"

definition contract_address :: "constants \<Rightarrow> ucore_instance \<Rightarrow> jsstring \<Rightarrow> js_error + jsval" where
  \<comment> \<open>\<^verbatim>\<open>address[this._network.name][key]\<close>\<close>
  "contract_address K this key =
     (case inst_network this of
        None \<Rightarrow> Inl (undefined_property (str ''name''))
      | Some n \<Rightarrow>
          (case map_of (address K) (net_name n) of
             None \<Rightarrow> Inl (undefined_property key)
           | Some t \<Rightarrow> Inr (table_entry t key)))"

definition user_address :: "provider \<Rightarrow> js_error + jsval" where
  \<comment> \<open>\<^verbatim>\<open>this._provider.address\<close>, else the awaited \<^verbatim>\<open>this._provider.getAddress()\<close>\<close>
  "user_address p =
     (if \<not> truthy (p_address p)
      then (case p_getAddress p of None \<Rightarrow> Inr (p_address p) | Some r \<Rightarrow> r)
      else Inr (p_address p))"

definition resolved_network :: "ucore_instance \<Rightarrow> network option" where
  \<comment> \<open>the network an instance knows once its promise, if still there, has settled\<close>
  "resolved_network u =
     (case inst_networkPromise u of
        None \<Rightarrow> inst_network u
      | Some (Inl e) \<Rightarrow> None
      | Some (Inr n) \<Rightarrow> Some n)"

section \<open>\<^verbatim>\<open>controller.ts\<close>\<close>

text \<open>
  The argument of \<^verbatim>\<open>enterMarkets\<close> is declared \<^verbatim>\<open>string | string[]\<close>, which is not
  checked at run time: the function tests the value itself, and the elements of an array
  can be any values. An array is one that can be written to, as an array literal is.
\<close>

definition with_v :: "jsstring \<Rightarrow> jsstring" where
  \<comment> \<open>\<^verbatim>\<open>if (m[0] !== 'v') m = 'v' + m\<close> on a string\<close>
  "with_v m = (case m of [] \<Rightarrow> str ''v'' | u # _ \<Rightarrow> if u \<noteq> of_char CHR ''v'' then str ''v'' @ m else m)"

definition element_symbol :: "lib \<Rightarrow> jsval \<Rightarrow> js_error + jsval" where
  \<comment> \<open>\<^verbatim>\<open>if (markets[i][0] !== 'v') markets[i] = 'v' + markets[i]\<close>: the new \<^verbatim>\<open>markets[i]\<close>\<close>
  "element_symbol L x =
     (case index_property x 0 of
        Inl e \<Rightarrow> Inl e
      | Inr c \<Rightarrow>
          if c \<noteq> JString (str ''v'')
          then (case string_of L x of Inl e \<Rightarrow> Inl e | Inr s \<Rightarrow> Inr (JString (str ''v'' @ s)))
          else Inr x)"

definition recognized :: "constants \<Rightarrow> jsval \<Rightarrow> jsstring option" where
  \<comment> \<open>\<^verbatim>\<open>vTokens.includes(y)\<close>: the list holds strings, and only a string is equal to one;
     \<open>Some s\<close> is the string found\<close>
  "recognized K y =
     (case y of JString s \<Rightarrow> if s \<in> set (vTokens K) then Some s else None | _ \<Rightarrow> None)"

definition unrecognized :: "lib \<Rightarrow> jsstring \<Rightarrow> jsval \<Rightarrow> js_error" where
  \<comment> \<open>what \<^verbatim>\<open>throw Error(errorPrefix + 'Provided market `' + y + '` is not a recognized vToken.')\<close>
     throws: the concatenation can fail before the error is made\<close>
  "unrecognized L errorPrefix y =
     (case string_of L y of
        Inl e \<Rightarrow> e
      | Inr s \<Rightarrow> Error (errorPrefix @ str ''Provided market `'' @ s @ str ''` is not a recognized vToken.''))"

fun enterMarkets_loop ::
  "constants \<Rightarrow> lib \<Rightarrow> ucore_instance \<Rightarrow> jsstring \<Rightarrow> jsval list \<Rightarrow> jsval list \<Rightarrow> js_error + jsval list" where
  "enterMarkets_loop K L this errorPrefix [] addresses = Inr addresses"
| "enterMarkets_loop K L this errorPrefix (x # markets) addresses =
     (case element_symbol L x of
        Inl e \<Rightarrow> Inl e
      | Inr y \<Rightarrow>
          (case recognized K y of
             None \<Rightarrow> Inl (unrecognized L errorPrefix y)
           | Some s \<Rightarrow>
               (case contract_address K this s of
                  Inl e \<Rightarrow> Inl e
                | Inr a \<Rightarrow> enterMarkets_loop K L this errorPrefix markets (addresses @ [a]))))"

definition enterMarkets :: "constants \<Rightarrow> lib \<Rightarrow> ucore_instance \<Rightarrow> jsval \<Rightarrow> options \<Rightarrow> result" where
  "enterMarkets K L this markets options =
     (case netId this of
        Inl e \<Rightarrow> ([], Inl e)
      | Inr this \<Rightarrow>
          (let errorPrefix = str ''Ucore [enterMarkets] | '';
               markets = (if markets = JUndefined then JArray [] else markets);
               markets = (case markets of JString m \<Rightarrow> JArray [JString m] | _ \<Rightarrow> markets)
           in case markets of
                JArray ms \<Rightarrow>
                  (case enterMarkets_loop K L this errorPrefix ms [] of
                     Inl e \<Rightarrow> ([], Inl e)
                   | Inr addresses \<Rightarrow>
                       (case contract_address K this (str ''Controller'') of
                          Inl e \<Rightarrow> ([], Inl e)
                        | Inr controllerAddress \<Rightarrow>
                            (let c = \<lparr>c_address = controllerAddress, c_method = ''enterMarkets'',
                                      c_parameters = [JArray addresses],
                                      c_options = spread [(''_ucoreProvider'', ProviderObject (inst_provider this)),
                                                          (''abi'', Abi ''Controller'')] options\<rparr>
                             in ([Trx c], awaited (eth_trx L c)))))
              | _ \<Rightarrow> ([], Inl (Error (errorPrefix @ str ''Argument `markets` must be an array or string.'')))))"

definition exitMarket :: "constants \<Rightarrow> lib \<Rightarrow> ucore_instance \<Rightarrow> jsval \<Rightarrow> options \<Rightarrow> result" where
  "exitMarket K L this market options =
     (case netId this of
        Inl e \<Rightarrow> ([], Inl e)
      | Inr this \<Rightarrow>
          (let errorPrefix = str ''Ucore [exitMarkets] | '' in
           case market of
             JString m \<Rightarrow>
               (if m = [] then
                  ([], Inl (Error (errorPrefix @ str ''Argument `market` must be a string of a vToken market name.'')))
                else if with_v m \<notin> set (vTokens K) then
                  ([], Inl (Error (errorPrefix @ str ''Provided market `'' @ with_v m @ str ''` is not a recognized vToken.'')))
                else
                  (case contract_address K this (with_v m) of
                     Inl e \<Rightarrow> ([], Inl e)
                   | Inr vTokenAddress \<Rightarrow>
                       (case contract_address K this (str ''Controller'') of
                          Inl e \<Rightarrow> ([], Inl e)
                        | Inr controllerAddress \<Rightarrow>
                            (let c = \<lparr>c_address = controllerAddress, c_method = ''exitMarket'',
                                      c_parameters = [vTokenAddress],
                                      c_options = spread [(''_ucoreProvider'', ProviderObject (inst_provider this)),
                                                          (''abi'', Abi ''Controller'')] options\<rparr>
                             in ([Trx c], awaited (eth_trx L c))))))
           | _ \<Rightarrow> ([], Inl (Error (errorPrefix @ str ''Argument `market` must be a string of a vToken market name.'')))))"

section \<open>\<^verbatim>\<open>ucore.ts\<close>\<close>

definition trx_options :: "ucore_instance \<Rightarrow> string \<Rightarrow> options \<Rightarrow> options" where
  \<comment> \<open>\<^verbatim>\<open>{ ...options, _ucoreProvider: this.prov, abi: abi.X }\<close>\<close>
  "trx_options this abi_name options =
     spread options [(''_ucoreProvider'', ProviderObject (inst_provider this)), (''abi'', Abi abi_name)]"

definition getUcoreBalance :: "constants \<Rightarrow> lib \<Rightarrow> jsval \<Rightarrow> optval \<Rightarrow> result" where
  "getUcoreBalance K L addr prov =
     (let prov = (if prov = Val JUndefined then Val (JString (str ''mainnet'')) else prov);
          provider = createProvider L [(''provider'', prov)]
      in case getProviderNetwork L provider of
           Inl e \<Rightarrow> ([], Inl e)
         | Inr net \<Rightarrow>
             (case address_argument L (str ''Ucore [getUcoreBalance] | '') addr of
                Inl e \<Rightarrow> ([], Inl e)
              | Inr a \<Rightarrow>
                  (case map_of (address K) (net_name net) of
                     None \<Rightarrow> ([], Inl (undefined_property (str ''UCORE'')))
                   | Some t \<Rightarrow>
                       (let c = \<lparr>c_address = table_entry t (str ''UCORE''),
                                 c_method = ''balanceOf'', c_parameters = [JString a],
                                 c_options = [(''_ucoreProvider'', ProviderObject provider), (''abi'', Abi ''UCORE'')]\<rparr>
                        in ([Read c],
                            case awaited (eth_read L c) of
                              Inl e \<Rightarrow> Inl e
                            | Inr r \<Rightarrow> map_sum id JString (method_toString L r))))))"

definition getUcoreAccrued :: "constants \<Rightarrow> lib \<Rightarrow> jsval \<Rightarrow> optval \<Rightarrow> result" where
  "getUcoreAccrued K L addr prov =
     (let prov = (if prov = Val JUndefined then Val (JString (str ''mainnet'')) else prov);
          provider = createProvider L [(''provider'', prov)]
      in case getProviderNetwork L provider of
           Inl e \<Rightarrow> ([], Inl e)
         | Inr net \<Rightarrow>
             (case address_argument L (str ''Ucore [getUcoreAccrued] | '') addr of
                Inl e \<Rightarrow> ([], Inl e)
              | Inr a \<Rightarrow>
                  (case map_of (address K) (net_name net) of
                     None \<Rightarrow> ([], Inl (undefined_property (str ''UcoreLens'')))
                   | Some t \<Rightarrow>
                       (let c = \<lparr>c_address = table_entry t (str ''UcoreLens''),
                                 c_method = ''getXVSBalanceMetadataExt'',
                                 c_parameters = [table_entry t (str ''UCORE''),
                                                 table_entry t (str ''Controller''), JString a],
                                 c_options = [(''_ucoreProvider'', ProviderObject provider),
                                              (''abi'', Abi ''UcoreLens'')]\<rparr>
                        in ([Read c],
                            case awaited (eth_read L c) of
                              Inl e \<Rightarrow> Inl e
                            | Inr r \<Rightarrow>
                                (case r of
                                   JUndefined \<Rightarrow> Inl (undefined_property (str ''allocated''))
                                 | JNull \<Rightarrow> Inl (null_property (str ''allocated''))
                                 | _ \<Rightarrow> map_sum id JString
                                          (method_toString L (get_property r ''allocated''))))))))"

definition claimUcore :: "constants \<Rightarrow> lib \<Rightarrow> ucore_instance \<Rightarrow> options \<Rightarrow> result" where
  "claimUcore K L this options =
     (case netId this of
        Inl e \<Rightarrow> ([], Inl e)
      | Inr this \<Rightarrow>
          (let errorPrefix = str ''Ucore [claimUcore] | '' in
           case user_address (inst_provider this) of
             Inl e \<Rightarrow> ([], Inr (JError (prefixed errorPrefix e)))
           | Inr userAddress \<Rightarrow>
               (case contract_address K this (str ''Controller'') of
                  Inl e \<Rightarrow> ([], Inr (JError (prefixed errorPrefix e)))
                | Inr controllerAddress \<Rightarrow>
                    (let c = \<lparr>c_address = controllerAddress, c_method = ''claimUcore(address)'',
                              c_parameters = [userAddress],
                              c_options = trx_options this ''Controller'' options\<rparr>
                     in ([Trx c], returned_in_try errorPrefix (eth_trx L c))))))"

definition delegate :: "constants \<Rightarrow> lib \<Rightarrow> ucore_instance \<Rightarrow> jsval \<Rightarrow> options \<Rightarrow> result" where
  "delegate K L this addr options =
     (case netId this of
        Inl e \<Rightarrow> ([], Inl e)
      | Inr this \<Rightarrow>
          (case address_argument L (str ''Ucore [delegate] | '') addr of
             Inl e \<Rightarrow> ([], Inl e)
           | Inr a \<Rightarrow>
               (case contract_address K this (str ''UCORE'') of
                  Inl e \<Rightarrow> ([], Inl e)
                | Inr ucoreAddress \<Rightarrow>
                    (let c = \<lparr>c_address = ucoreAddress, c_method = ''delegate'',
                              c_parameters = [JString a],
                              c_options = trx_options this ''UCORE'' options\<rparr>
                     in ([Trx c], awaited (eth_trx L c))))))"

definition delegateBySig ::
  "constants \<Rightarrow> lib \<Rightarrow> ucore_instance \<Rightarrow> jsval \<Rightarrow> jsval \<Rightarrow> jsval \<Rightarrow> jsval \<Rightarrow> options \<Rightarrow> result" where
  "delegateBySig K L this addr nonce expiry signature options =
     (let signature = (if signature = JUndefined
                       then JObject True [(''v'', JString []), (''r'', JString []), (''s'', JString [])]
                       else signature);
          errorPrefix = str ''Ucore [delegateBySig] | ''
      in case netId this of
           Inl e \<Rightarrow> ([], Inl e)
         | Inr this \<Rightarrow>
             (case address_argument L errorPrefix addr of
                Inl e \<Rightarrow> ([], Inl e)
              | Inr a \<Rightarrow>
                  (if typeof nonce \<noteq> ''number'' then
                     ([], Inl (Error (errorPrefix @ str ''Argument `nonce` must be an integer.'')))
                   else if typeof expiry \<noteq> ''number'' then
                     ([], Inl (Error (errorPrefix @ str ''Argument `expiry` must be an integer.'')))
                   else if \<not> isExtensible signature \<or> \<not> truthy (get_property signature ''v'')
                           \<or> \<not> truthy (get_property signature ''r'')
                           \<or> \<not> truthy (get_property signature ''s'') then
                     ([], Inl (Error (errorPrefix @ str ''Argument `signature` must be an object that ''
                                      @ str ''contains the v, r, and s pieces of an EIP-712 signature.'')))
                   else
                     (case contract_address K this (str ''UCORE'') of
                        Inl e \<Rightarrow> ([], Inl e)
                      | Inr ucoreAddress \<Rightarrow>
                          (let c = \<lparr>c_address = ucoreAddress, c_method = ''delegateBySig'',
                                    c_parameters = [JString a, nonce, expiry,
                                                    get_property signature ''v'',
                                                    get_property signature ''r'',
                                                    get_property signature ''s''],
                                    c_options = trx_options this ''UCORE'' options\<rparr>
                           in ([Trx c], awaited (eth_trx L c)))))))"

definition delegate_types :: "(string \<times> (string \<times> string) list) list" where
  "delegate_types =
     [(''EIP712Domain'',
        [(''name'', ''string''), (''chainId'', ''uint256''), (''verifyingContract'', ''address'')]),
      (''Delegation'',
        [(''delegatee'', ''address''), (''nonce'', ''uint256''), (''expiry'', ''uint256'')])]"

definition createDelegateSignature ::
  "constants \<Rightarrow> lib \<Rightarrow> ucore_instance \<Rightarrow> jsval \<Rightarrow> jsval \<Rightarrow> result" where
  "createDelegateSignature K L this delegatee expiry =
     (let expiry = (if expiry = JUndefined then JNumber 10000000000 else expiry)
      in case netId this of
           Inl e \<Rightarrow> ([], Inl e)
         | Inr this \<Rightarrow>
             (let provider = inst_provider this in
              case contract_address K this (str ''UCORE'') of
                Inl e \<Rightarrow> ([], Inl e)
              | Inr ucoreAddress \<Rightarrow>
                  (case inst_network this of
                     None \<Rightarrow> ([], Inl (undefined_property (str ''id'')))
                   | Some net \<Rightarrow>
                       (case user_address provider of
                          Inl e \<Rightarrow> ([], Inl e)
                        | Inr userAddress \<Rightarrow>
                            (let c = \<lparr>c_address = ucoreAddress,
                                      c_method = ''function nonces(address) returns (uint)'',
                                      c_parameters = [userAddress],
                                      c_options = [(''provider'', inst_originalProvider this)]\<rparr>
                             in case awaited (eth_read L c) of
                                  Inl e \<Rightarrow> ([Read c], Inl e)
                                | Inr r \<Rightarrow>
                                    (case method_toString L r of
                                       Inl e \<Rightarrow> ([Read c], Inl e)
                                     | Inr s \<Rightarrow>
                                         (let q = \<lparr>s_domain = \<lparr>d_name = ''Ucore'', d_chainId = net_id net,
                                                                 d_verifyingContract = ucoreAddress\<rparr>,
                                                   s_primaryType = ''Delegation'',
                                                   s_message = \<lparr>m_delegatee = delegatee,
                                                                  m_nonce = unaryPlus L (JString s),
                                                                  m_expiry = expiry\<rparr>,
                                                   s_types = delegate_types,
                                                   s_signer = (case p_getSigner provider of
                                                                 None \<Rightarrow> ProviderItself provider
                                                               | Some g \<Rightarrow> Signer g)\<rparr>
                                          in ([Read c, Sign q], awaited (sign L q)))))))))"

definition length_exceeds_one :: "lib \<Rightarrow> jsval \<Rightarrow> js_error + bool" where
  \<comment> \<open>\<^verbatim>\<open>result.length > 1\<close>: reading \<^verbatim>\<open>length\<close> throws on undefined and null; a list and a
     string have their length, an object its property of that name, a function its number
     of parameters; a boolean, a number, a BigNumber and an error object have none\<close>
  "length_exceeds_one L result =
     (case result of
        JUndefined \<Rightarrow> Inl (undefined_property (str ''length''))
      | JNull \<Rightarrow> Inl (null_property (str ''length''))
      | JArray xs \<Rightarrow> Inr (1 < length xs)
      | JString s \<Rightarrow> Inr (1 < length s)
      | JObject e kvs \<Rightarrow> greater_than_one L (get_property (JObject e kvs) ''length'')
      | JFunction m f \<Rightarrow> Inr (1 < arity L m f)
      | _ \<Rightarrow> Inr False)"

definition mintable_result :: "lib \<Rightarrow> jsstring \<Rightarrow> jsval \<Rightarrow> promise" where
  \<comment> \<open>what \<^verbatim>\<open>getMintableUAI\<close> makes of the value \<open>result\<close> read\<close>
  "mintable_result L errorPrefix result =
     (case length_exceeds_one L result of
        Inl e \<Rightarrow> Inl e
      | Inr False \<Rightarrow> Inl (Error (errorPrefix @ str ''Contract error occured''))
      | Inr True \<Rightarrow>
          (case index_property result 0 of
             Inl e \<Rightarrow> Inl e
           | Inr r0 \<Rightarrow>
               (case method_toString L r0 of
                  Inl e \<Rightarrow> Inl e
                | Inr s0 \<Rightarrow>
                    if s0 = str ''0''
                    then (case index_property result 1 of
                            Inl e \<Rightarrow> Inl e
                          | Inr r1 \<Rightarrow> map_sum id JString (method_toString L r1))
                    else Inl (Error (errorPrefix @ str ''Contract error occured'')))))"

definition getMintableUAI :: "constants \<Rightarrow> lib \<Rightarrow> ucore_instance \<Rightarrow> jsval \<Rightarrow> options \<Rightarrow> result" where
  "getMintableUAI K L this addr options =
     (let errorPrefix = str ''Ucore [getMintableUAI] | '' in
      case address_argument L errorPrefix addr of
        Inl e \<Rightarrow> ([], Inl e)
      | Inr a \<Rightarrow>
          (case contract_address K this (str ''Controller'') of
             Inl e \<Rightarrow> ([], Inl e)
           | Inr controllerAddress \<Rightarrow>
               (let c = \<lparr>c_address = controllerAddress, c_method = ''getMintableUAI'',
                         c_parameters = [JString a],
                         c_options = trx_options this ''Controller'' options\<rparr>
                in ([Read c],
                    case awaited (eth_read L c) of
                      Inl e \<Rightarrow> Inl e
                    | Inr result \<Rightarrow> mintable_result L errorPrefix result))))"

definition controller_read ::
  "constants \<Rightarrow> lib \<Rightarrow> ucore_instance \<Rightarrow> string \<Rightarrow> jsval list \<Rightarrow> options \<Rightarrow> event list \<times> (js_error + jsval)" where
  \<comment> \<open>the body shared by the read-only UAI getters up to the \<^verbatim>\<open>await eth.read\<close>\<close>
  "controller_read K L this method parameters options =
     (case contract_address K this (str ''Controller'') of
        Inl e \<Rightarrow> ([], Inl e)
      | Inr controllerAddress \<Rightarrow>
          (let c = \<lparr>c_address = controllerAddress, c_method = method, c_parameters = parameters,
                    c_options = trx_options this ''Controller'' options\<rparr>
           in ([Read c], awaited (eth_read L c))))"

definition result_toString :: "lib \<Rightarrow> event list \<times> (js_error + jsval) \<Rightarrow> result" where
  \<comment> \<open>\<^verbatim>\<open>return result.toString()\<close>\<close>
  "result_toString L r =
     (case r of
        (evs, Inl e) \<Rightarrow> (evs, Inl e)
      | (evs, Inr v) \<Rightarrow> (evs, map_sum id JString (method_toString L v)))"

definition getUAIMintRate :: "constants \<Rightarrow> lib \<Rightarrow> ucore_instance \<Rightarrow> options \<Rightarrow> result" where
  "getUAIMintRate K L this options =
     result_toString L (controller_read K L this ''getUAIMintRate'' [] options)"

definition mintUAIGuardianPaused :: "constants \<Rightarrow> lib \<Rightarrow> ucore_instance \<Rightarrow> options \<Rightarrow> result" where
  "mintUAIGuardianPaused K L this options =
     controller_read K L this ''mintUAIGuardianPaused'' [] options"

definition repayUAIGuardianPaused :: "constants \<Rightarrow> lib \<Rightarrow> ucore_instance \<Rightarrow> options \<Rightarrow> result" where
  "repayUAIGuardianPaused K L this options =
     controller_read K L this ''repayUAIGuardianPaused'' [] options"

definition mintedUAIOf :: "constants \<Rightarrow> lib \<Rightarrow> ucore_instance \<Rightarrow> jsval \<Rightarrow> options \<Rightarrow> result" where
  "mintedUAIOf K L this addr options =
     (case address_argument L (str ''Ucore [mintedUAIOf] | '') addr of
        Inl e \<Rightarrow> ([], Inl e)
      | Inr a \<Rightarrow> result_toString L (controller_read K L this ''mintedUAIOf'' [JString a] options))"

definition mintedUAIs :: "constants \<Rightarrow> lib \<Rightarrow> ucore_instance \<Rightarrow> jsval \<Rightarrow> options \<Rightarrow> result" where
  "mintedUAIs K L this addr options =
     (case address_argument L (str ''Ucore [mintedUAIs] | '') addr of
        Inl e \<Rightarrow> ([], Inl e)
      | Inr a \<Rightarrow> result_toString L (controller_read K L this ''mintedUAIs'' [JString a] options))"

definition uaiController :: "constants \<Rightarrow> lib \<Rightarrow> ucore_instance \<Rightarrow> options \<Rightarrow> result" where
  "uaiController K L this options = controller_read K L this ''uaiController'' [] options"

definition uaiMintRate :: "constants \<Rightarrow> lib \<Rightarrow> ucore_instance \<Rightarrow> options \<Rightarrow> result" where
  "uaiMintRate K L this options =
     result_toString L (controller_read K L this ''uaiMintRate'' [] options)"

definition amount_argument :: "lib \<Rightarrow> jsstring \<Rightarrow> jsval \<Rightarrow> options \<Rightarrow> js_error + jsval" where
  \<comment> \<open>the part of \<^verbatim>\<open>mintUAI\<close> and \<^verbatim>\<open>repayUAI\<close> before their \<^verbatim>\<open>try\<close>: the type test,
     the scaling unless \<^verbatim>\<open>options.mantissa\<close>, the conversion to a BigNumber\<close>
  "amount_argument L errorPrefix amount options =
     (if typeof amount \<noteq> ''number'' \<and> typeof amount \<noteq> ''string'' \<and> \<not> isBigNumber amount then
        Inl (Error (errorPrefix @ str ''Argument `amount` must be a string, number, or BigNumber.''))
      else
        (let amount = (if \<not> truthy_opt (option_of options ''mantissa'')
                       then times1e18 L (unaryPlus L amount) else amount)
         in case method_toString L amount of
              Inl e \<Rightarrow> Inl e
            | Inr s \<Rightarrow> bigNumberFrom L s))"

definition mintUAI :: "constants \<Rightarrow> lib \<Rightarrow> ucore_instance \<Rightarrow> jsval \<Rightarrow> options \<Rightarrow> result" where
  "mintUAI K L this mintUAIAmount options =
     (case netId this of
        Inl e \<Rightarrow> ([], Inl e)
      | Inr this \<Rightarrow>
          (case amount_argument L (str ''Ucore [mintUAI] | '') mintUAIAmount options of
             Inl e \<Rightarrow> ([], Inl e)
           | Inr amount \<Rightarrow>
               (case contract_address K this (str ''Controller'') of
                  Inl e \<Rightarrow> ([], Inr (JError (prefixed (str ''Ucore [mintUAI] | '') e)))
                | Inr controllerAddress \<Rightarrow>
                    (let c = \<lparr>c_address = controllerAddress, c_method = ''mintUAI'',
                              c_parameters = [amount],
                              c_options = trx_options this ''Controller'' options\<rparr>
                     in ([Trx c], returned_in_try (str ''Ucore [mintUAI] | '') (eth_trx L c))))))"

definition repayUAI :: "constants \<Rightarrow> lib \<Rightarrow> ucore_instance \<Rightarrow> jsval \<Rightarrow> options \<Rightarrow> result" where
  "repayUAI K L this repayUAIAmount options =
     (case netId this of
        Inl e \<Rightarrow> ([], Inl e)
      | Inr this \<Rightarrow>
          (case amount_argument L (str ''Ucore [mintUAI] | '') repayUAIAmount options of
             Inl e \<Rightarrow> ([], Inl e)
           | Inr amount \<Rightarrow>
               (case contract_address K this (str ''Controller'') of
                  Inl e \<Rightarrow> ([], Inr (JError (prefixed (str ''Ucore [repayUAI] | '') e)))
                | Inr controllerAddress \<Rightarrow>
                    (let c = \<lparr>c_address = controllerAddress, c_method = ''repayUAI'',
                              c_parameters = [amount],
                              c_options = trx_options this ''Controller'' options\<rparr>
                     in ([Trx c], returned_in_try (str ''Ucore [repayUAI] | '') (eth_trx L c))))))"

section \<open>\<^verbatim>\<open>index.ts\<close>\<close>

text \<open>
  A module is the list of its exports. \<open>controller\<close> and \<open>comp\<close> (the module
  \<^verbatim>\<open>./ucore\<close>) list the functions defined above; the modules \<^verbatim>\<open>vToken\<close>,
  \<^verbatim>\<open>priceFeed\<close> and \<^verbatim>\<open>gov\<close> are parameters.
\<close>

definition controller :: "(string \<times> jsval) list" where
  "controller = map (\<lambda>f. (f, JFunction ''controller'' f)) [''enterMarkets'', ''exitMarket'']"

definition comp :: "(string \<times> jsval) list" where
  "comp = map (\<lambda>f. (f, JFunction ''ucore'' f))
     [''getUcoreBalance'', ''getUcoreAccrued'', ''claimUcore'', ''delegate'', ''delegateBySig'',
      ''createDelegateSignature'', ''getMintableUAI'', ''getUAIMintRate'',
      ''mintUAIGuardianPaused'', ''repayUAIGuardianPaused'', ''mintedUAIOf'', ''mintedUAIs'',
      ''uaiController'', ''uaiMintRate'', ''mintUAI'', ''repayUAI'']"

definition member :: "(string \<times> jsval) list \<Rightarrow> string \<Rightarrow> jsval" where
  \<comment> \<open>\<^verbatim>\<open>module.name\<close>: undefined when the module has no such export\<close>
  "member m name = (case map_of m name of None \<Rightarrow> JUndefined | Some v \<Rightarrow> v)"

record modules =
  vToken :: "(string \<times> jsval) list"
  priceFeed :: "(string \<times> jsval) list"
  gov :: "(string \<times> jsval) list"

definition instance_members :: "modules \<Rightarrow> (string \<times> jsval) list" where
  \<comment> \<open>the function-valued part of the object literal of the constructor\<close>
  "instance_members M =
     spread []
       (controller @ vToken M @ priceFeed M @ gov M @
        [(''claimUcore'', member comp ''claimUcore''),
         (''delegate'', member comp ''delegate''),
         (''delegateBySig'', member comp ''delegateBySig''),
         (''createDelegateSignature'', member comp ''createDelegateSignature''),
         (''getMintableVAI'', member comp ''getMintableVAI''),
         (''getVAIMintRate'', member comp ''getVAIMintRate''),
         (''mintVAIGuardianPaused'', member comp ''mintVAIGuardianPaused''),
         (''repayVAIGuardianPaused'', member comp ''repayVAIGuardianPaused''),
         (''mintedVAIOf'', member comp ''mintedVAIOf''),
         (''mintedVAIs'', member comp ''mintedVAIs''),
         (''vaiController'', member comp ''vaiController''),
         (''vaiMintRate'', member comp ''vaiMintRate''),
         (''mintVAI'', member comp ''mintVAI''),
         (''repayVAI'', member comp ''repayVAI'')])"

definition Ucore :: "lib \<Rightarrow> modules \<Rightarrow> optval \<Rightarrow> options \<Rightarrow> ucore_instance" where
  "Ucore L M provider options =
     (let provider = (if provider = Val JUndefined then Val (JString (str ''mainnet'')) else provider);
          originalProvider = provider;
          options = AList.update ''provider''
                      (if truthy_opt provider then provider else option_of options ''provider'') options;
          provider = createProvider L options
      in \<lparr>inst_originalProvider = originalProvider, inst_provider = provider,
          inst_networkPromise = Some (getProviderNetwork L provider), inst_network = None,
          inst_decimals = None, inst_members = instance_members M\<rparr>)"

definition Ucore_decimals :: nat where
  \<comment> \<open>\<^verbatim>\<open>Ucore.decimals = decimals\<close>\<close>
  "Ucore_decimals = decimals_ref"

definition settle :: "store \<times> ucore_instance \<Rightarrow> store \<times> ucore_instance" where
  \<comment> \<open>the promise made by the constructor settles: on success the callback runs\<close>
  "settle = (\<lambda>(h, u).
     (case inst_networkPromise u of
        Some (Inr n) \<Rightarrow> network_resolved n (h, u)
      | _ \<Rightarrow> (h, u)))"

fun construct_all :: "lib \<Rightarrow> modules \<Rightarrow> store \<Rightarrow> optval list \<Rightarrow> store \<times> ucore_instance list" where
  \<comment> \<open>a sequence of \<^verbatim>\<open>new Ucore(p)\<close>, each promise settling before the next call\<close>
  "construct_all L M h [] = (h, [])"
| "construct_all L M h (p # ps) =
     (let (h1, u) = settle (h, Ucore L M p []);
          (h2, us) = construct_all L M h1 ps
      in (h2, u # us))"

definition decimals_of :: "store \<Rightarrow> nat \<Rightarrow> string \<Rightarrow> int option" where
  \<comment> \<open>\<^verbatim>\<open>obj.TOKEN\<close> for the object at a reference\<close>
  "decimals_of h r token = map_of (h r) token"


section \<open>The public functions, called on an instance\<close>

datatype sdk_call =
    EnterMarkets jsval options
  | ExitMarket jsval options
  | GetUcoreBalance jsval optval
  | GetUcoreAccrued jsval optval
  | ClaimUcore options
  | Delegate jsval options
  | DelegateBySig jsval jsval jsval jsval options
  | CreateDelegateSignature jsval jsval
  | GetMintableUAI jsval options
  | GetUAIMintRate options
  | MintUAIGuardianPaused options
  | RepayUAIGuardianPaused options
  | MintedUAIOf jsval options
  | MintedUAIs jsval options
  | UaiController options
  | UaiMintRate options
  | MintUAI jsval options
  | RepayUAI jsval options

text \<open>
  A call of one of the functions that \<^verbatim>\<open>controller.ts\<close> and \<^verbatim>\<open>ucore.ts\<close> export, with its
  arguments. \<^verbatim>\<open>getUcoreBalance\<close> and \<^verbatim>\<open>getUcoreAccrued\<close> make their own provider and do not
  use the instance.
\<close>

fun call_sdk :: "constants \<Rightarrow> lib \<Rightarrow> ucore_instance \<Rightarrow> sdk_call \<Rightarrow> result" where
  "call_sdk K L this (EnterMarkets markets options) = enterMarkets K L this markets options"
| "call_sdk K L this (ExitMarket market options) = exitMarket K L this market options"
| "call_sdk K L this (GetUcoreBalance addr prov) = getUcoreBalance K L addr prov"
| "call_sdk K L this (GetUcoreAccrued addr prov) = getUcoreAccrued K L addr prov"
| "call_sdk K L this (ClaimUcore options) = claimUcore K L this options"
| "call_sdk K L this (Delegate addr options) = delegate K L this addr options"
| "call_sdk K L this (DelegateBySig addr nonce expiry signature options) =
     delegateBySig K L this addr nonce expiry signature options"
| "call_sdk K L this (CreateDelegateSignature delegatee expiry) =
     createDelegateSignature K L this delegatee expiry"
| "call_sdk K L this (GetMintableUAI addr options) = getMintableUAI K L this addr options"
| "call_sdk K L this (GetUAIMintRate options) = getUAIMintRate K L this options"
| "call_sdk K L this (MintUAIGuardianPaused options) = mintUAIGuardianPaused K L this options"
| "call_sdk K L this (RepayUAIGuardianPaused options) = repayUAIGuardianPaused K L this options"
| "call_sdk K L this (MintedUAIOf addr options) = mintedUAIOf K L this addr options"
| "call_sdk K L this (MintedUAIs addr options) = mintedUAIs K L this addr options"
| "call_sdk K L this (UaiController options) = uaiController K L this options"
| "call_sdk K L this (UaiMintRate options) = uaiMintRate K L this options"
| "call_sdk K L this (MintUAI amount options) = mintUAI K L this amount options"
| "call_sdk K L this (RepayUAI amount options) = repayUAI K L this amount options"

fun outcome_of :: "lib \<Rightarrow> event \<Rightarrow> outcome" where
  \<comment> \<open>what the client library did with a request\<close>
  "outcome_of L (Read c) = eth_read L c"
| "outcome_of L (Trx c) = eth_trx L c"
| "outcome_of L (Sign q) = sign L q"

section \<open>A configuration to evaluate on\<close>

definition example_constants :: constants where
  "example_constants =
     \<lparr>address =
        [(str ''mainnet'', [(str ''Controller'', str ''0xC1''), (str ''UCORE'', str ''0xC2''),
                            (str ''vSXP'', str ''0xA1''), (str ''vUSDC'', str ''0xA2'')]),
         (str ''testnet'', [(str ''Controller'', str ''0xD1''), (str ''UCORE'', str ''0xD2''),
                            (str ''vSXP'', str ''0xB1''), (str ''vUSDC'', str ''0xB2'')])],
      vTokens = [str ''vSXP'', str ''vUSDC''],
      decimals = [(''SXP'', 18), (''USDC'', 6), (''USDT'', 6)]\<rparr>"

definition example_mainnet :: network where
  "example_mainnet = \<lparr>net_id = 56, net_name = str ''mainnet''\<rparr>"

definition example_testnet :: network where
  "example_testnet = \<lparr>net_id = 97, net_name = str ''testnet''\<rparr>"

definition example_provider :: provider where
  "example_provider =
     \<lparr>p_id = 56, p_address = JString (str ''0x00000000000000000000000000000000000000aa''),
      p_getAddress = None, p_getSigner = Some 1\<rparr>"

definition example_lib :: lib where
  \<comment> \<open>a client library that answers every read with the BigNumber 7 and accepts every
     transaction; a provider made for \<^verbatim>\<open>'mainnet'\<close> is on network 56, any other on 97; the
     conversions are given on the few values the examples use\<close>
  "example_lib =
     \<lparr>eth_read = (\<lambda>c. Resolves (JBigNumber 7)),
      eth_trx = (\<lambda>c. Resolves (JObject True [(''hash'', JString (str ''0x01''))])),
      sign = (\<lambda>q. Resolves (JObject True [(''v'', JString (str ''0x1b'')), (''r'', JString (str ''0x02'')),
                                          (''s'', JString (str ''0x03''))])),
      createProvider = (\<lambda>opts. \<lparr>p_id = (if option_of opts ''provider'' = Val (JString (str ''mainnet''))
                                              then 56 else 97),
                                   p_address = JUndefined, p_getAddress = None, p_getSigner = None\<rparr>),
      getProviderNetwork = (\<lambda>p. Inr (if p_id p = 56 then example_mainnet else example_testnet)),
      toLowerCase_wide = (\<lambda>s. s),
      toUpperCase_wide = (\<lambda>s. s),
      toString = (\<lambda>v. case v of JBigNumber n \<Rightarrow> Inr (if n = 0 then str ''0'' else if n = 1 then str ''1''
                                                     else if n = 7 then str ''7'' else str ''many'')
                              | _ \<Rightarrow> Inr (str ''[object Object]'')),
      concatenated = (\<lambda>v. case v of JArray [JString s] \<Rightarrow> Inr s
                                  | JNumber n \<Rightarrow> Inr (if n = 1 then str ''1'' else str ''many'')
                                  | _ \<Rightarrow> Inr (str ''[object Object]'')),
      exceeds_one = (\<lambda>v. Inr False),
      arity = (\<lambda>m f. 2),
      unaryPlus = (\<lambda>v. if v = JString (str ''7'') then JNumber 7 else JNaN),
      times1e18 = (\<lambda>v. if v = JNumber 7 then JNumber 7000000000000000000 else JNaN),
      bigNumberFrom = (\<lambda>s. if s = str ''7'' then Inr (JBigNumber 7)
                            else Inl (Error (str ''invalid BigNumber string'')))\<rparr>"

definition example_modules :: modules where
  "example_modules =
     \<lparr>vToken = [(''supply'', JFunction ''vToken'' ''supply'')],
      priceFeed = [(''getPrice'', JFunction ''priceFeed'' ''getPrice'')],
      gov = [(''castVote'', JFunction ''gov'' ''castVote'')]\<rparr>"

definition example_pending :: ucore_instance where
  \<comment> \<open>an instance whose network promise has not settled yet\<close>
  "example_pending =
     \<lparr>inst_originalProvider = Val (JString (str ''mainnet'')), inst_provider = example_provider,
      inst_networkPromise = Some (Inr example_mainnet), inst_network = None,
      inst_decimals = None, inst_members = []\<rparr>"

definition example_ready :: ucore_instance where
  "example_ready = on_network example_mainnet example_pending"

definition example_error :: js_error where
  "example_error = \<lparr>err_name = ''Error'', err_message = str ''execution reverted''\<rparr>"

definition example_no_account :: ucore_instance where
  \<comment> \<open>a resolved instance whose provider has no \<open>address\<close> and whose \<open>getAddress\<close> fails\<close>
  "example_no_account =
     example_ready\<lparr>inst_provider :=
       \<lparr>p_id = 56, p_address = JUndefined,
        p_getAddress = Some (Inl \<lparr>err_name = ''Error'', err_message = str ''unknown account #0''\<rparr>),
        p_getSigner = None\<rparr>\<rparr>"

definition example_wallet :: provider where
  \<comment> \<open>a provider without an \<open>address\<close> property whose \<open>getAddress\<close> answers\<close>
  "example_wallet =
     \<lparr>p_id = 56, p_address = JUndefined,
      p_getAddress = Some (Inr (JString (str ''0x00000000000000000000000000000000000000bb''))),
      p_getSigner = None\<rparr>"

definition example_lib_status :: lib where
  \<comment> \<open>the contract answers the read with error code 1\<close>
  "example_lib_status =
     example_lib\<lparr>eth_read := (\<lambda>c. Resolves (JArray [JBigNumber 1, JBigNumber 0]))\<rparr>"

definition example_lib_rejecting :: lib where
  \<comment> \<open>every read and every transaction returns a promise that rejects\<close>
  "example_lib_rejecting =
     example_lib\<lparr>eth_read := (\<lambda>c. Rejects example_error), eth_trx := (\<lambda>c. Rejects example_error)\<rparr>"

definition example_lib_throwing :: lib where
  \<comment> \<open>every transaction throws before it returns a promise\<close>
  "example_lib_throwing = example_lib\<lparr>eth_trx := (\<lambda>c. Throws example_error)\<rparr>"

definition example_address :: jsval where
  "example_address = JString (str ''0xa0df350d2637096571f7a701cbc1c5fde30df76a'')"

definition example_controller_call :: "string \<Rightarrow> jsval list \<Rightarrow> options \<Rightarrow> call" where
  \<comment> \<open>the request of \<open>example_ready\<close> to the Controller of the main network\<close>
  "example_controller_call method parameters options =
     \<lparr>c_address = JString (str ''0xC1''), c_method = method, c_parameters = parameters,
      c_options = options @ [(''_ucoreProvider'', ProviderObject example_provider),
                             (''abi'', Abi ''Controller'')]\<rparr>"

definition example_ucore_call :: "string \<Rightarrow> jsval list \<Rightarrow> call" where
  \<comment> \<open>the request of \<open>example_ready\<close> to the UCORE token of the main network\<close>
  "example_ucore_call method parameters =
     \<lparr>c_address = JString (str ''0xC2''), c_method = method, c_parameters = parameters,
      c_options = [(''_ucoreProvider'', ProviderObject example_provider), (''abi'', Abi ''UCORE'')]\<rparr>"

definition example_markets_call :: "jsval list \<Rightarrow> call" where
  \<comment> \<open>the \<^verbatim>\<open>enterMarkets\<close> transaction of \<open>example_ready\<close> for a list of addresses\<close>
  "example_markets_call addresses =
     \<lparr>c_address = JString (str ''0xC1''), c_method = ''enterMarkets'',
      c_parameters = [JArray addresses],
      c_options = [(''_ucoreProvider'', ProviderObject example_provider),
                   (''abi'', Abi ''Controller'')]\<rparr>"

definition example_elsewhere :: ucore_instance where
  \<comment> \<open>a resolved instance on a network that the address table does not know\<close>
  "example_elsewhere =
     example_ready\<lparr>inst_network := Some \<lparr>net_id = 5, net_name = str ''goerli''\<rparr>\<rparr>"


section \<open>The permutation on one address, round by round\<close>

text \<open>
  The 24 rounds of the permutation on the block of the 40 characters
  \<^verbatim>\<open>a0df350d2637096571f7a701cbc1c5fde30df76a\<close>, four rounds at a time: \<open>example_state k\<close> is the state after \<open>4 * k\<close> rounds.
\<close>

definition example_bytes :: "nat list" where
  \<comment> \<open>the character codes of \<^verbatim>\<open>a0df350d2637096571f7a701cbc1c5fde30df76a\<close>\<close>
  "example_bytes =
      [97, 48, 100, 102, 51, 53, 48, 100, 50, 54, 51, 55, 48, 57, 54, 53,
       55, 49, 102, 55, 97, 55, 48, 49, 99, 98, 99, 49, 99, 53, 102, 100,
       101, 51, 48, 100, 102, 55, 54, 97]"

definition example_state :: "nat \<Rightarrow> lane list" where
  "example_state k =
     (if k = 0 then
        [7219328697552351329, 3834315011999872562, 3544393797421379895,
         7234528551563911779, 7004847183328457573, 1,
         0, 0, 0,
         0, 0, 0,
         0, 0, 0,
         0, 9223372036854775808, 0,
         0, 0, 0,
         0, 0, 0,
         0]
      else if k = 1 then
        [17748239990678395467, 13526047060692439487, 15337359471943597950,
         10664793954697430944, 7185125882387688117, 11607331607683376710,
         6595441798198536553, 16278223504318703681, 6679207093951103037,
         16593841002256780983, 5047493156797067097, 7154185875326627852,
         17513004473581684368, 398385743749979627, 18159703458039779390,
         9542617334629665660, 1905292919281115998, 15498450337350158818,
         13626131932189348007, 8711630277304489287, 4669819633904908190,
         16234488276907855145, 8986158804876960973, 3270406440189718728,
         12459084403674730625]
      else if k = 2 then
        [16678159234094445151, 7011555454388481151, 5496080978168341754,
         1648278146322979000, 10656267598685604663, 14037382649609294448,
         17152215377605272158, 10310017644036530582, 3271805566965951253,
         17468342406388522260, 5385690583570789140, 2618971255003239225,
         17311979154506547928, 14822862360771535585, 17897579307607625200,
         3341848173863296784, 2814840129057346025, 13768740318175988011,
         7311889521066571895, 15504389931865345123, 17807919001688604618,
         7890140576517804317, 13995518558768803108, 12554490963288480806,
         11205809398231282778]
      else if k = 3 then
        [1523865558652467022, 8098855962241000671, 5894064549362564459,
         7198480899393998496, 13461734565513946256, 11331802476753932853,
         1111516565369763023, 9412527955503977786, 11038301268205354536,
         6504954585272086967, 4081290292064133246, 5517378920154047247,
         11211857793280800981, 5144603084747226365, 8560410113816667606,
         10455000387292885574, 4332761934905606552, 16881321513794956524,
         6251621690755264574, 2959732567386055603, 15875797732397137611,
         13925178251738660725, 10206129387729470521, 3720447288169316376,
         1817449050258660355]
      else if k = 4 then
        [8946029892512196139, 3096137332809653489, 17514139622883379588,
         7376931498494233485, 16261009786188220302, 16841072992888127697,
         9245401843426714650, 7346503558032820837, 7614384267776019887,
         6847316495462896319, 11113393428346505043, 7998758161171806703,
         14042748352731005397, 10279444311188136331, 3767644122113545511,
         16957153393350207773, 4754046219783957782, 17952576995328324967,
         4048085155816823433, 11517815187456763738, 6115773199283422450,
         8135939619939281889, 12817437192300854734, 2654150520079311180,
         9898682739417833195]
      else if k = 5 then
        [8933946213532845585, 17409312806391039369, 1729145573674058650,
         9418840997223319819, 15810032312775107824, 731871348534528660,
         10343840410511343867, 4232493657664395878, 2251147539381336920,
         332131221169209936, 11637837483167392616, 13575925611794487733,
         7540106225244547783, 5734789175268478510, 7563328109292007639,
         17201010254401947832, 10536597946146891168, 14963512268260733354,
         11151383560669300312, 14944162023267080893, 10957204632005412551,
         14241257155239687948, 10560546462919763996, 3202231714099498011,
         16124996656404420440]
      else if k = 6 then
        [5504529314635260755, 3509164670791945076, 15548901854046307282,
         7852078919213430702, 5896840589865652339, 7418690081838351709,
         8661444522965650676, 8915119805204986845, 1993190292553743304,
         16069200369611279059, 14485459987285648609, 15196650105273980168,
         8471908692823665858, 9079404391488327424, 11062731905770185864,
         14387323114805383741, 17670193475276888502, 5454949040321512013,
         3777601027713544535, 17755675929199704357, 7487746927352882605,
         9233369585989256554, 6643673209385969076, 11713187393061687932,
         14638874319035674645]
      else [])"

section \<open>The digest of one address\<close>

text \<open>
  The two tables are the index arithmetic of the permutation: the lane at \<open>(x, y)\<close> moves to
  \<open>(y, 2 * x + 3 * y)\<close>, rotated by its offset, and \<open>\<chi>\<close> combines each lane with the next two
  of its row.
\<close>

lemma pi_rho_table_eq:
  "pi_rho_table =
     map (\<lambda>i. ((i mod 5 + 3 * (i div 5)) mod 5 + 5 * (i mod 5),
               rho_offsets ! ((i mod 5 + 3 * (i div 5)) mod 5 + 5 * (i mod 5)))) [0..<25]"
  by (simp add: pi_rho_table_def rho_offsets_def upt_rec)

lemma pi_rho_table_moves:
  "list_all (\<lambda>x. list_all (\<lambda>y.
       pi_rho_table ! (y + 5 * ((2 * x + 3 * y) mod 5)) = (x + 5 * y, rho_offsets ! (x + 5 * y)))
     [0, 1, 2, 3, 4]) [0, 1, 2, 3, 4]"
  by (simp add: pi_rho_table_def rho_offsets_def)

lemma chi_table_eq:
  "chi_table =
     map (\<lambda>i. (i, (i mod 5 + 1) mod 5 + 5 * (i div 5), (i mod 5 + 2) mod 5 + 5 * (i div 5))) [0..<25]"
  by (simp add: chi_table_def upt_rec)

lemmas keccak_round_defs =
  keccak_round_def iota_def chi_def rho_pi_def theta_def theta_apply_def theta_d_def theta_c_def
  rotl64_def mask64_def pi_rho_table_def chi_table_def

lemma replicate_numeral_Cons: "replicate (numeral k) x = x # replicate (pred_numeral k) x"
  by (simp add: numeral_eq_Suc)

lemma example_block:
  "lanes_of_block (pad example_bytes) = example_state 0"
  by (simp add: example_state_def example_bytes_def lanes_of_block_def pad_def replicate_numeral_Cons)

lemma example_rounds_1:
  "keccak_round (keccak_round (keccak_round (keccak_round (example_state 0)
     1) 32898) 9223372036854808714) 9223372039002292224 = example_state 1"
  by (simp add: example_state_def keccak_round_defs)

lemma example_rounds_2:
  "keccak_round (keccak_round (keccak_round (keccak_round (example_state 1)
     32907) 2147483649) 9223372039002292353) 9223372036854808585 = example_state 2"
  by (simp add: example_state_def keccak_round_defs)

lemma example_rounds_3:
  "keccak_round (keccak_round (keccak_round (keccak_round (example_state 2)
     138) 136) 2147516425) 2147483658 = example_state 3"
  by (simp add: example_state_def keccak_round_defs)

lemma example_rounds_4:
  "keccak_round (keccak_round (keccak_round (keccak_round (example_state 3)
     2147516555) 9223372036854775947) 9223372036854808713) 9223372036854808579 = example_state 4"
  by (simp add: example_state_def keccak_round_defs)

lemma example_rounds_5:
  "keccak_round (keccak_round (keccak_round (keccak_round (example_state 4)
     9223372036854808578) 9223372036854775936) 32778) 9223372039002259466 = example_state 5"
  by (simp add: example_state_def keccak_round_defs)

lemma example_rounds_6:
  "keccak_round (keccak_round (keccak_round (keccak_round (example_state 5)
     9223372039002292353) 9223372036854808704) 2147483649) 9223372039002292232 = example_state 6"
  by (simp add: example_state_def keccak_round_defs)

lemma example_keccak_f: "keccak_f (example_state 0) = example_state 6"
  by (simp only: keccak_f_def round_constants_def foldl.simps
      example_rounds_1 example_rounds_2 example_rounds_3 example_rounds_4 example_rounds_5
      example_rounds_6)

lemma example_blocks:
  "blocks_of (pad example_bytes) = [pad example_bytes]"
  by (subst blocks_of.simps, subst blocks_of.simps) (simp add: pad_def example_bytes_def)

lemma example_digest:
  "keccak256 example_bytes =
     ''0x53238f563f04644c748be7fcac0eb330d2c3d7c9dacbc8d7aeb70cc82c30f86c''"
proof -
  have "absorb [0, 0, 0, 0, 0, 0, 0, 0, 0, 0, 0, 0, 0, 0, 0, 0, 0, 0, 0, 0, 0, 0, 0, 0, 0]
          (pad example_bytes) = example_state 6"
    unfolding absorb_def example_block
    by (simp add: example_state_def [of 0] example_keccak_f [unfolded example_state_def [of 0], simplified])
  then show ?thesis
    unfolding keccak256_def keccak256_bytes_def example_blocks
    by (simp add: example_state_def hexlify_def hexdigit_def bytes_of_lane_def)
qed

section \<open>Basic facts\<close>

lemma str_append: "str (a @ b) = str a @ str b"
  by (simp add: str_def)

lemma length_str: "length (str s) = length s"
  by (simp add: str_def)

lemma str_eq_Nil: "(str s = []) = (s = [])"
  by (simp add: str_def)

lemma str_eq_iff: "(str a = str b) = (a = b)"
proof
  assume "str a = str b"
  then have "map (of_char :: char \<Rightarrow> nat) a = map of_char b"
    by (simp add: str_def)
  moreover have "inj (of_char :: char \<Rightarrow> nat)"
    by (rule injI) simp
  ultimately show "a = b"
    by (simp add: inj_map_eq_map)
qed simp

lemma netId_resolved:
  assumes "resolved_network u = Some n"
  shows "\<exists>u'. netId u = Inr u' \<and> inst_network u' = Some n
           \<and> inst_provider u' = inst_provider u
           \<and> inst_originalProvider u' = inst_originalProvider u"
  using assms
  by (auto simp: resolved_network_def netId_def on_network_def split: option.splits sum.splits)

lemma contract_address_resolved:
  assumes "inst_network u = Some n" and "map_of (address K) (net_name n) = Some t"
  shows "contract_address K u key = Inr (table_entry t key)"
  using assms by (simp add: contract_address_def)

lemma example_lib_calls:
  "eth_read example_lib c = Resolves (JBigNumber 7)"
  "eth_trx example_lib c = Resolves (JObject True [(''hash'', JString (str ''0x01''))])"
  "sign example_lib q = Resolves (JObject True [(''v'', JString (str ''0x1b'')),
                                                 (''r'', JString (str ''0x02'')),
                                                 (''s'', JString (str ''0x03''))])"
  "toLowerCase_wide example_lib s = s"
  "toUpperCase_wide example_lib s = s"
  "toString example_lib (JBigNumber 7) = Inr (str ''7'')"
  "toString example_lib (JBigNumber 1) = Inr (str ''1'')"
  "toString example_lib (JBigNumber 0) = Inr (str ''0'')"
  "concatenated example_lib (JArray [JString s]) = Inr s"
  "concatenated example_lib (JNumber 1) = Inr (str ''1'')"
  "exceeds_one example_lib v = Inr False"
  "arity example_lib m f = 2"
  "unaryPlus example_lib (JString (str ''7'')) = JNumber 7"
  "times1e18 example_lib (JNumber 7) = JNumber 7000000000000000000"
  "bigNumberFrom example_lib (str ''7'') = Inr (JBigNumber 7)"
  by (simp_all add: example_lib_def)

lemma example_resolved: "resolved_network example_pending = Some example_mainnet"
  by (simp add: resolved_network_def example_pending_def)

lemma example_table:
  "map_of (address example_constants) (net_name example_mainnet) =
     Some [(str ''Controller'', str ''0xC1''), (str ''UCORE'', str ''0xC2''),
           (str ''vSXP'', str ''0xA1''), (str ''vUSDC'', str ''0xA2'')]"
  by (simp add: example_constants_def example_mainnet_def)

section \<open>\<^verbatim>\<open>exitMarket\<close>\<close>




section \<open>The checksum of one address\<close>

text \<open>
  The result for the lower-case spelling is the spelling that the doc comments of
  \<^verbatim>\<open>delegate\<close> and \<^verbatim>\<open>delegateBySig\<close> use for this address.
\<close>

lemma example_lowercase:
  "toLowerCase L (str ''0xa0df350d2637096571f7a701cbc1c5fde30df76a'')
     = str ''0xa0df350d2637096571f7a701cbc1c5fde30df76a''
   \<and> toLowerCase L (str ''0xA0DF350D2637096571F7A701CBC1C5FDE30DF76A'')
     = str ''0xa0df350d2637096571f7a701cbc1c5fde30df76a''"
  by (simp add: toLowerCase_def lower_unit_def str_def)

lemma example_checksum_lower:
  "toChecksumAddress L (str ''0xa0df350d2637096571f7a701cbc1c5fde30df76a'') =
     Inr (str ''0xa0df350d2637096571F7A701CBc1C5fdE30dF76A'')"
proof -
  have "toLowerCase L (str ''0xa0df350d2637096571f7a701cbc1c5fde30df76a'')
          = str ''0xa0df350d2637096571f7a701cbc1c5fde30df76a''"
    using example_lowercase by blast
  then show ?thesis
    by (simp add: toChecksumAddress_def str_def example_digest [unfolded example_bytes_def]
        parseInt16_def toUpperCase_def upper_unit_def)
qed

lemma example_checksum_upper:
  "toChecksumAddress L (str ''0xA0DF350D2637096571F7A701CBC1C5FDE30DF76A'') =
     Inr (str ''0xA0DF350D2637096571F7A701CBC1C5FDE30DF76A'')"
proof -
  have "toLowerCase L (str ''0xA0DF350D2637096571F7A701CBC1C5FDE30DF76A'')
          = str ''0xa0df350d2637096571f7a701cbc1c5fde30df76a''"
    using example_lowercase by blast
  then show ?thesis
    by (simp add: toChecksumAddress_def str_def example_digest [unfolded example_bytes_def]
        parseInt16_def toUpperCase_def upper_unit_def)
qed

section \<open>\<^verbatim>\<open>enterMarkets\<close>\<close>

lemma with_v_cases: "with_v m = (if take 1 m = str ''v'' then m else str ''v'' @ m)"
  by (auto simp: with_v_def str_def split: list.splits)

lemma element_symbol_string: "element_symbol L (JString s) = Inr (JString (with_v s))"
  by (cases s) (auto simp: element_symbol_def with_v_def string_of_def str_def)

lemma element_symbol_other:
  assumes "\<forall>s. x \<noteq> JString s" and "x \<noteq> JUndefined" and "x \<noteq> JNull"
  shows "element_symbol L x =
     (if (case x of JArray (a # _) \<Rightarrow> a | JObject _ kvs \<Rightarrow> get_property x ''0'' | _ \<Rightarrow> JUndefined)
           = JString (str ''v'')
      then Inr x
      else (case concatenated L x of Inl e \<Rightarrow> Inl e | Inr s \<Rightarrow> Inr (JString (str ''v'' @ s))))"
  using assms
  by (cases x) (auto simp: element_symbol_def string_of_def split: list.splits)

lemma recognized_iff: "(recognized K y = Some s) = (y = JString s \<and> s \<in> set (vTokens K))"
  by (cases y) (auto simp: recognized_def)

lemma find_None_iff_all: "(find P xs = None) = (\<forall>x \<in> set xs. \<not> P x)"
  by (induction xs) auto

lemma enterMarkets_loop_resolved:
  assumes "inst_network u = Some n" and "map_of (address K) (net_name n) = Some t"
  shows "enterMarkets_loop K L u p xs acc =
     (let verdict = (\<lambda>x. case element_symbol L x of
                            Inl e \<Rightarrow> Inl e
                          | Inr y \<Rightarrow> (case recognized K y of
                                        None \<Rightarrow> Inl (unrecognized L p y)
                                      | Some s \<Rightarrow> Inr (table_entry t s)))
      in case find (\<lambda>x. isl (verdict x)) xs of
           Some x \<Rightarrow> Inl (projl (verdict x))
         | None \<Rightarrow> Inr (acc @ map (\<lambda>x. projr (verdict x)) xs))"
proof (induction xs arbitrary: acc)
  case Nil
  show ?case by simp
next
  case (Cons x xs)
  show ?case
    by (simp add: Cons.IH contract_address_resolved [OF assms] Let_def
        split: sum.splits option.splits)
qed

text \<open>
  C4. On an instance whose network resolves to \<open>n\<close>, with the address table populated for
  \<open>n\<close>, for every value given as \<open>markets\<close>. A single string behaves as the one-element
  array of it, and a missing argument as the empty array. An element that is a string is
  used with \<^verbatim>\<open>v\<close> prepended unless it starts with \<^verbatim>\<open>v\<close>; reading the first character of
  an element that is undefined or null throws; any other element whose \<^verbatim>\<open>[0]\<close> is not the
  string \<^verbatim>\<open>v\<close> is replaced by the string \<^verbatim>\<open>'v' + element\<close>, and is kept as it is otherwise.
  Only a string of the list of vTokens is recognised. The first element that throws or
  is not recognised decides: the function throws, for an unrecognised string the error
  that names it, and makes no request. When there is no such element the only request is
  one \<^verbatim>\<open>enterMarkets\<close> transaction to the Controller address of \<open>n\<close>, whose single
  parameter is the array of the table entries of the symbols, in order. A value that is
  neither undefined, nor a string, nor an array is refused.
\<close>

theorem enterMarkets_wraps_checks_forwards:
  assumes "resolved_network this = Some n"
    and "map_of (address K) (net_name n) = Some t"
  shows
    "(let p = str ''Ucore [enterMarkets] | '';
          verdict = (\<lambda>x. case element_symbol L x of
                            Inl e \<Rightarrow> Inl e
                          | Inr y \<Rightarrow> (case recognized K y of
                                        None \<Rightarrow> Inl (unrecognized L p y)
                                      | Some s \<Rightarrow> Inr (table_entry t s)))
      in enterMarkets K L this (JString m) options = enterMarkets K L this (JArray [JString m]) options
       \<and> enterMarkets K L this JUndefined options = enterMarkets K L this (JArray []) options
       \<and> (\<forall>s. with_v s = (if take 1 s = str ''v'' then s else str ''v'' @ s))
       \<and> (\<forall>s. verdict (JString s) =
                 (if with_v s \<in> set (vTokens K) then Inr (table_entry t (with_v s))
                  else Inl (Error (p @ str ''Provided market `'' @ with_v s
                                     @ str ''` is not a recognized vToken.''))))
       \<and> verdict JUndefined = Inl (undefined_property (str ''0''))
       \<and> verdict JNull = Inl (null_property (str ''0''))
       \<and> (\<forall>x. (\<forall>s. x \<noteq> JString s) \<and> x \<noteq> JUndefined \<and> x \<noteq> JNull \<longrightarrow>
                element_symbol L x =
                  (if (case x of JArray (a # _) \<Rightarrow> a | JObject _ kvs \<Rightarrow> get_property x ''0''
                               | _ \<Rightarrow> JUndefined) = JString (str ''v'')
                   then Inr x
                   else (case concatenated L x of
                           Inl e \<Rightarrow> Inl e
                         | Inr s \<Rightarrow> Inr (JString (str ''v'' @ s)))))
       \<and> (\<forall>y s. (recognized K y = Some s) = (y = JString s \<and> s \<in> set (vTokens K)))
       \<and> (\<forall>y. (\<forall>s. y \<noteq> JString s) \<longrightarrow>
                unrecognized L p y =
                  (case concatenated L y of
                     Inl e \<Rightarrow> e
                   | Inr s \<Rightarrow> Error (p @ str ''Provided market `'' @ s
                                       @ str ''` is not a recognized vToken.'')))
       \<and> (\<forall>x. find (\<lambda>x. isl (verdict x)) xs = Some x \<longrightarrow>
                enterMarkets K L this (JArray xs) options = ([], Inl (projl (verdict x))))
       \<and> (find (\<lambda>x. isl (verdict x)) xs = None \<longrightarrow>
            enterMarkets K L this (JArray xs) options =
              (let c = \<lparr>c_address = table_entry t (str ''Controller''), c_method = ''enterMarkets'',
                        c_parameters = [JArray (map (\<lambda>x. projr (verdict x)) xs)],
                        c_options = spread [(''_ucoreProvider'', ProviderObject (inst_provider this)),
                                            (''abi'', Abi ''Controller'')] options\<rparr>
               in ([Trx c], awaited (eth_trx L c))))
       \<and> (v \<noteq> JUndefined \<and> (\<forall>s. v \<noteq> JString s) \<and> (\<forall>ys. v \<noteq> JArray ys) \<longrightarrow>
            enterMarkets K L this v options =
              ([], Inl (Error (p @ str ''Argument `markets` must be an array or string.'')))))"
proof -
  from netId_resolved [OF assms(1)] obtain u' where
    u': "netId this = Inr u'" "inst_network u' = Some n" "inst_provider u' = inst_provider this"
    by blast
  note loop = enterMarkets_loop_resolved [OF u'(2) assms(2), unfolded Let_def]
  note ca = contract_address_resolved [OF u'(2) assms(2)]
  let ?p = "str ''Ucore [enterMarkets] | ''"
  define verdict where "verdict = (\<lambda>x. case element_symbol L x of
                            Inl e \<Rightarrow> Inl e
                          | Inr y \<Rightarrow> (case recognized K y of
                                        None \<Rightarrow> Inl (unrecognized L ?p y)
                                      | Some s \<Rightarrow> Inr (table_entry t s)))"
  have one: "enterMarkets K L this (JString m) options = enterMarkets K L this (JArray [JString m]) options"
    by (simp add: enterMarkets_def u')
  have none: "enterMarkets K L this JUndefined options = enterMarkets K L this (JArray []) options"
    by (simp add: enterMarkets_def u')
  have wv: "\<forall>s. with_v s = (if take 1 s = str ''v'' then s else str ''v'' @ s)"
    using with_v_cases by blast
  have vs: "\<forall>s. verdict (JString s) =
                 (if with_v s \<in> set (vTokens K) then Inr (table_entry t (with_v s))
                  else Inl (Error (?p @ str ''Provided market `'' @ with_v s
                                     @ str ''` is not a recognized vToken.'')))"
    by (simp add: verdict_def element_symbol_string recognized_def unrecognized_def string_of_def)
  have vu: "verdict JUndefined = Inl (undefined_property (str ''0''))"
    by (simp add: verdict_def element_symbol_def)
  have vn: "verdict JNull = Inl (null_property (str ''0''))"
    by (simp add: verdict_def element_symbol_def)
  have es: "\<forall>x. (\<forall>s. x \<noteq> JString s) \<and> x \<noteq> JUndefined \<and> x \<noteq> JNull \<longrightarrow>
                element_symbol L x =
                  (if (case x of JArray (a # _) \<Rightarrow> a | JObject _ kvs \<Rightarrow> get_property x ''0''
                               | _ \<Rightarrow> JUndefined) = JString (str ''v'')
                   then Inr x
                   else (case concatenated L x of
                           Inl e \<Rightarrow> Inl e
                         | Inr s \<Rightarrow> Inr (JString (str ''v'' @ s))))"
    using element_symbol_other by blast
  have rc: "\<forall>y s. (recognized K y = Some s) = (y = JString s \<and> s \<in> set (vTokens K))"
    using recognized_iff by blast
  have ur: "\<forall>y. (\<forall>s. y \<noteq> JString s) \<longrightarrow>
                unrecognized L ?p y =
                  (case concatenated L y of
                     Inl e \<Rightarrow> e
                   | Inr s \<Rightarrow> Error (?p @ str ''Provided market `'' @ s
                                       @ str ''` is not a recognized vToken.''))"
  proof (intro allI impI)
    fix y :: jsval
    assume "\<forall>s. y \<noteq> JString s"
    then show "unrecognized L ?p y =
                  (case concatenated L y of
                     Inl e \<Rightarrow> e
                   | Inr s \<Rightarrow> Error (?p @ str ''Provided market `'' @ s
                                       @ str ''` is not a recognized vToken.''))"
      by (cases y) (simp_all add: unrecognized_def string_of_def)
  qed
  have bad: "\<forall>x. find (\<lambda>x. isl (verdict x)) xs = Some x \<longrightarrow>
                enterMarkets K L this (JArray xs) options = ([], Inl (projl (verdict x)))"
    by (simp add: enterMarkets_def Let_def u' loop verdict_def)
  have good: "find (\<lambda>x. isl (verdict x)) xs = None \<longrightarrow>
            enterMarkets K L this (JArray xs) options =
              (let c = \<lparr>c_address = table_entry t (str ''Controller''), c_method = ''enterMarkets'',
                        c_parameters = [JArray (map (\<lambda>x. projr (verdict x)) xs)],
                        c_options = spread [(''_ucoreProvider'', ProviderObject (inst_provider this)),
                                            (''abi'', Abi ''Controller'')] options\<rparr>
               in ([Trx c], awaited (eth_trx L c)))"
    by (simp add: enterMarkets_def Let_def u' loop ca verdict_def)
  have other: "v \<noteq> JUndefined \<and> (\<forall>s. v \<noteq> JString s) \<and> (\<forall>ys. v \<noteq> JArray ys) \<longrightarrow>
            enterMarkets K L this v options =
              ([], Inl (Error (?p @ str ''Argument `markets` must be an array or string.'')))"
    by (cases v) (simp_all add: enterMarkets_def u')
  note parts = one none wv vs [unfolded verdict_def] vu [unfolded verdict_def]
    vn [unfolded verdict_def] es rc ur bad [unfolded verdict_def]
    good [unfolded verdict_def Let_def] other
  show ?thesis
    unfolding Let_def by (intro conjI parts)
qed

theorem enterMarkets_wraps_checks_forwards_witness:
  "enterMarkets example_constants example_lib example_pending (JString (str ''SXP'')) [] =
     ([Trx \<lparr>c_address = JString (str ''0xC1''), c_method = ''enterMarkets'',
             c_parameters = [JArray [JString (str ''0xA1'')]],
             c_options = [(''_ucoreProvider'', ProviderObject example_provider),
                          (''abi'', Abi ''Controller'')]\<rparr>],
      Inr (JObject True [(''hash'', JString (str ''0x01''))]))
   \<and> enterMarkets example_constants example_lib example_pending
       (JArray [JString (str ''vUSDC''), JString (str ''BTC'')]) [] =
       ([], Inl (Error (str ''Ucore [enterMarkets] | Provided market `vBTC` is not a recognized vToken.'')))
   \<and> enterMarkets example_constants example_lib example_pending (JNumber 3) [] =
       ([], Inl (Error (str ''Ucore [enterMarkets] | Argument `markets` must be an array or string.'')))
   \<and> enterMarkets example_constants example_lib example_pending
       (JArray [JArray [JString (str ''SXP'')]]) [] =
       ([Trx \<lparr>c_address = JString (str ''0xC1''), c_method = ''enterMarkets'',
               c_parameters = [JArray [JString (str ''0xA1'')]],
               c_options = [(''_ucoreProvider'', ProviderObject example_provider),
                            (''abi'', Abi ''Controller'')]\<rparr>],
        Inr (JObject True [(''hash'', JString (str ''0x01''))]))
   \<and> enterMarkets example_constants example_lib example_pending (JArray [JNumber 1]) [] =
       ([], Inl (Error (str ''Ucore [enterMarkets] | Provided market `v1` is not a recognized vToken.'')))
   \<and> enterMarkets example_constants example_lib example_pending (JArray [JNull]) [] =
       ([], Inl (null_property (str ''0'')))
   \<and> enterMarkets example_constants example_lib example_pending JUndefined [] =
       ([Trx \<lparr>c_address = JString (str ''0xC1''), c_method = ''enterMarkets'',
               c_parameters = [JArray []],
               c_options = [(''_ucoreProvider'', ProviderObject example_provider),
                            (''abi'', Abi ''Controller'')]\<rparr>],
        Inr (JObject True [(''hash'', JString (str ''0x01''))]))"
proof -
  note defs = Let_def element_symbol_def recognized_def unrecognized_def string_of_def with_v_def
    example_constants_def table_entry_def example_pending_def example_lib_calls spread_def str_def
  have w1: "enterMarkets example_constants example_lib example_pending (JString (str ''SXP'')) [] =
     ([Trx \<lparr>c_address = JString (str ''0xC1''), c_method = ''enterMarkets'',
             c_parameters = [JArray [JString (str ''0xA1'')]],
             c_options = [(''_ucoreProvider'', ProviderObject example_provider),
                          (''abi'', Abi ''Controller'')]\<rparr>],
      Inr (JObject True [(''hash'', JString (str ''0x01''))]))"
    using enterMarkets_wraps_checks_forwards [OF example_resolved example_table,
        where L = example_lib and m = "str ''SXP''" and options = "[]"
          and xs = "[JString (str ''SXP'')]" and v = "JNumber 3"]
    by (simp add: defs)
  have w2: "enterMarkets example_constants example_lib example_pending
       (JArray [JString (str ''vUSDC''), JString (str ''BTC'')]) [] =
       ([], Inl (Error (str ''Ucore [enterMarkets] | Provided market `vBTC` is not a recognized vToken.'')))"
    using enterMarkets_wraps_checks_forwards [OF example_resolved example_table,
        where L = example_lib and m = "str ''SXP''" and options = "[]"
          and xs = "[JString (str ''vUSDC''), JString (str ''BTC'')]" and v = "JNumber 3"]
    by (simp add: defs)
  have w3: "enterMarkets example_constants example_lib example_pending (JNumber 3) [] =
       ([], Inl (Error (str ''Ucore [enterMarkets] | Argument `markets` must be an array or string.'')))"
    using enterMarkets_wraps_checks_forwards [OF example_resolved example_table,
        where L = example_lib and m = "str ''SXP''" and options = "[]"
          and xs = "[]" and v = "JNumber 3"]
    by (simp add: defs)
  have w4: "enterMarkets example_constants example_lib example_pending
       (JArray [JArray [JString (str ''SXP'')]]) [] =
       ([Trx \<lparr>c_address = JString (str ''0xC1''), c_method = ''enterMarkets'',
               c_parameters = [JArray [JString (str ''0xA1'')]],
               c_options = [(''_ucoreProvider'', ProviderObject example_provider),
                            (''abi'', Abi ''Controller'')]\<rparr>],
        Inr (JObject True [(''hash'', JString (str ''0x01''))]))"
    using enterMarkets_wraps_checks_forwards [OF example_resolved example_table,
        where L = example_lib and m = "str ''SXP''" and options = "[]"
          and xs = "[JArray [JString (str ''SXP'')]]" and v = "JNumber 3"]
    by (simp add: defs)
  have w5: "enterMarkets example_constants example_lib example_pending (JArray [JNumber 1]) [] =
       ([], Inl (Error (str ''Ucore [enterMarkets] | Provided market `v1` is not a recognized vToken.'')))"
    using enterMarkets_wraps_checks_forwards [OF example_resolved example_table,
        where L = example_lib and m = "str ''SXP''" and options = "[]"
          and xs = "[JNumber 1]" and v = "JNumber 3"]
    by (simp add: defs)
  have w6: "enterMarkets example_constants example_lib example_pending (JArray [JNull]) [] =
       ([], Inl (null_property (str ''0'')))"
    using enterMarkets_wraps_checks_forwards [OF example_resolved example_table,
        where L = example_lib and m = "str ''SXP''" and options = "[]"
          and xs = "[JNull]" and v = "JNumber 3"]
    by (simp add: defs)
  have w7: "enterMarkets example_constants example_lib example_pending JUndefined [] =
       ([Trx \<lparr>c_address = JString (str ''0xC1''), c_method = ''enterMarkets'',
               c_parameters = [JArray []],
               c_options = [(''_ucoreProvider'', ProviderObject example_provider),
                            (''abi'', Abi ''Controller'')]\<rparr>],
        Inr (JObject True [(''hash'', JString (str ''0x01''))]))"
    using enterMarkets_wraps_checks_forwards [OF example_resolved example_table,
        where L = example_lib and m = "str ''SXP''" and options = "[]"
          and xs = "[]" and v = "JNumber 3"]
    by (simp add: defs)
  from w1 w2 w3 w4 w5 w6 w7 show ?thesis
    by (intro conjI)
qed

section \<open>\<^verbatim>\<open>delegateBySig\<close>\<close>

lemma length_toLowerCase:
  assumes "\<forall>u \<in> set s. u < 256"
  shows "length (toLowerCase L s) = length s"
  using assms by (simp add: toLowerCase_def)

lemma toChecksumAddress_throws: "isl (toChecksumAddress L s) = (length (toLowerCase L s) < 42)"
  by (auto simp: toChecksumAddress_def Let_def)

lemma toChecksumAddress_returns:
  "42 \<le> length (toLowerCase L s) \<Longrightarrow>
     toChecksumAddress L s =
       Inr (apply_checksum L
              (keccak256 (map (\<lambda>u. u mod 256) (take 40 (drop 2 (toLowerCase L s))))) s)"
  by (auto simp: toChecksumAddress_def Let_def)

lemma apply_checksum_caseless:
  assumes "\<forall>u \<in> set s. u < 256 \<and> upper_unit u = [u]"
  shows "apply_checksum L h s = s"
  using assms
  by (induction L h s rule: apply_checksum.induct) (simp_all add: toUpperCase_def)

lemma toChecksumAddress_caseless:
  assumes "\<forall>u \<in> set s. u < 256 \<and> upper_unit u = [u]" and "42 \<le> length s"
  shows "toChecksumAddress L s = Inr s"
proof -
  from assms(1) have "\<forall>u \<in> set s. u < 256"
    by blast
  then have "length (toLowerCase L s) = length s"
    by (rule length_toLowerCase)
  with assms(2) have "42 \<le> length (toLowerCase L s)"
    by simp
  then show ?thesis
    by (simp add: toChecksumAddress_returns apply_checksum_caseless [OF assms(1)])
qed

lemma delegateBySig_checks:
  assumes "resolved_network this = Some n"
    and "map_of (address K) (net_name n) = Some t"
  shows
    "(let sig = (if signature = JUndefined
                 then JObject True [(''v'', JString []), (''r'', JString []), (''s'', JString [])]
                 else signature);
          sig_ok = (isExtensible sig \<and> truthy (get_property sig ''v'')
                    \<and> truthy (get_property sig ''r'') \<and> truthy (get_property sig ''s''));
          p = str ''Ucore [delegateBySig] | ''
      in delegateBySig K L this addr nonce expiry signature options =
           (if typeof addr \<noteq> ''string'' then
              ([], Inl (Error (p @ str ''Argument `_address` must be a string.'')))
            else if \<exists>s. addr = JString s \<and> length (toLowerCase L s) < 42 then
              ([], Inl (Error (p @ str ''Argument `_address` must be a valid Ethereum address.'')))
            else if typeof nonce \<noteq> ''number'' then
              ([], Inl (Error (p @ str ''Argument `nonce` must be an integer.'')))
            else if typeof expiry \<noteq> ''number'' then
              ([], Inl (Error (p @ str ''Argument `expiry` must be an integer.'')))
            else if \<not> sig_ok then
              ([], Inl (Error (p @ str ''Argument `signature` must be an object that ''
                                 @ str ''contains the v, r, and s pieces of an EIP-712 signature.'')))
            else
              (let c = \<lparr>c_address = table_entry t (str ''UCORE''), c_method = ''delegateBySig'',
                        c_parameters =
                          [JString (case addr of
                                      JString s \<Rightarrow>
                                        apply_checksum L
                                          (keccak256 (map (\<lambda>u. u mod 256)
                                                       (take 40 (drop 2 (toLowerCase L s))))) s
                                    | _ \<Rightarrow> []),
                           nonce, expiry, get_property sig ''v'', get_property sig ''r'',
                           get_property sig ''s''],
                        c_options = trx_options this ''UCORE'' options\<rparr>
               in ([Trx c], awaited (eth_trx L c))))
         \<and> (signature = JUndefined \<longrightarrow> \<not> sig_ok))"
proof -
  from netId_resolved [OF assms(1)] obtain u' where
    u': "netId this = Inr u'" "inst_network u' = Some n" "inst_provider u' = inst_provider this"
    by blast
  note ca = contract_address_resolved [OF u'(2) assms(2)]
  have opts: "trx_options u' ''UCORE'' options = trx_options this ''UCORE'' options"
    by (simp add: trx_options_def u')
  show ?thesis
  proof (cases addr)
    case (JString s)
    show ?thesis
    proof (cases "length (toLowerCase L s) < 42")
      case True
      then have "isl (toChecksumAddress L s)"
        by (simp add: toChecksumAddress_throws)
      then obtain e where "toChecksumAddress L s = Inl e"
        by (cases "toChecksumAddress L s") auto
      with True JString show ?thesis
        by (simp add: delegateBySig_def Let_def u' address_argument_def)
    next
      case False
      then have r: "toChecksumAddress L s =
          Inr (apply_checksum L
                 (keccak256 (map (\<lambda>u. u mod 256) (take 40 (drop 2 (toLowerCase L s))))) s)"
        by (simp add: toChecksumAddress_returns)
      from False JString show ?thesis
        by (simp add: delegateBySig_def Let_def u' address_argument_def r ca opts)
    qed
  qed (simp_all add: delegateBySig_def Let_def u' address_argument_def)
qed

lemma example_no_address:
  "toChecksumAddress L (str ''NOT AN ADDRESS, BUT NO SHORTER THAN 42 UNITS'')
     = Inr (str ''NOT AN ADDRESS, BUT NO SHORTER THAN 42 UNITS'')"
  by (rule toChecksumAddress_caseless) (simp_all add: str_def upper_unit_def)

text \<open>
  C7, evaluated. The address check of \<^verbatim>\<open>delegateBySig\<close> is the call of
  \<^verbatim>\<open>toChecksumAddress\<close>, which throws only on a string that keeps fewer than 42 characters,
  and which returns a string that is not in every case the EIP-55 spelling. A text of 44
  characters that is no address passes every check and is sent as the delegatee; the
  address of the example written in upper case is sent as it is, while its lower-case
  spelling is sent with the EIP-55 capitals. The default signature is refused.
\<close>

theorem delegateBySig_sends_what_is_no_address:
  "delegateBySig example_constants example_lib example_pending
     (JString (str ''NOT AN ADDRESS, BUT NO SHORTER THAN 42 UNITS'')) (JNumber 42) (JNumber 9999999999)
     (JObject True [(''v'', JString (str ''0x1b'')), (''r'', JString (str ''0x13'')),
                    (''s'', JString (str ''0x1d''))]) [] =
     ([Trx \<lparr>c_address = JString (str ''0xC2''), c_method = ''delegateBySig'',
             c_parameters = [JString (str ''NOT AN ADDRESS, BUT NO SHORTER THAN 42 UNITS''),
                             JNumber 42, JNumber 9999999999, JString (str ''0x1b''),
                             JString (str ''0x13''), JString (str ''0x1d'')],
             c_options = [(''_ucoreProvider'', ProviderObject example_provider),
                          (''abi'', Abi ''UCORE'')]\<rparr>],
      Inr (JObject True [(''hash'', JString (str ''0x01''))]))
   \<and> delegateBySig example_constants example_lib example_pending
       (JString (str ''0xA0DF350D2637096571F7A701CBC1C5FDE30DF76A'')) (JNumber 42) (JNumber 9999999999)
       (JObject True [(''v'', JString (str ''0x1b'')), (''r'', JString (str ''0x13'')),
                      (''s'', JString (str ''0x1d''))]) [] =
       ([Trx \<lparr>c_address = JString (str ''0xC2''), c_method = ''delegateBySig'',
               c_parameters = [JString (str ''0xA0DF350D2637096571F7A701CBC1C5FDE30DF76A''),
                               JNumber 42, JNumber 9999999999, JString (str ''0x1b''),
                               JString (str ''0x13''), JString (str ''0x1d'')],
               c_options = [(''_ucoreProvider'', ProviderObject example_provider),
                            (''abi'', Abi ''UCORE'')]\<rparr>],
        Inr (JObject True [(''hash'', JString (str ''0x01''))]))
   \<and> delegateBySig example_constants example_lib example_pending
       (JString (str ''0xa0df350d2637096571f7a701cbc1c5fde30df76a'')) (JNumber 42) (JNumber 9999999999)
       (JObject True [(''v'', JString (str ''0x1b'')), (''r'', JString (str ''0x13'')),
                      (''s'', JString (str ''0x1d''))]) [] =
       ([Trx \<lparr>c_address = JString (str ''0xC2''), c_method = ''delegateBySig'',
               c_parameters = [JString (str ''0xa0df350d2637096571F7A701CBc1C5fdE30dF76A''),
                               JNumber 42, JNumber 9999999999, JString (str ''0x1b''),
                               JString (str ''0x13''), JString (str ''0x1d'')],
               c_options = [(''_ucoreProvider'', ProviderObject example_provider),
                            (''abi'', Abi ''UCORE'')]\<rparr>],
        Inr (JObject True [(''hash'', JString (str ''0x01''))]))
   \<and> delegateBySig example_constants example_lib example_pending
       (JString (str ''0xa0df350d2637096571f7a701cbc1c5fde30df76a'')) (JNumber 42) (JNumber 9999999999)
       JUndefined [] =
       ([], Inl (Error (str ''Ucore [delegateBySig] | Argument `signature` must be an object that ''
                        @ str ''contains the v, r, and s pieces of an EIP-712 signature.'')))
   \<and> delegateBySig example_constants example_lib example_pending
       (JString (str ''0xa0df'')) (JNumber 42) (JNumber 9999999999) JUndefined [] =
       ([], Inl (Error (str ''Ucore [delegateBySig] | Argument `_address` must be a valid Ethereum address.'')))"
proof -
  have short: "toChecksumAddress example_lib (str ''0xa0df'') = Inl (undefined_property (str ''charCodeAt''))"
    by (simp add: toChecksumAddress_def toLowerCase_def str_def)
  show ?thesis
    by (simp add: delegateBySig_def address_argument_def example_no_address example_checksum_upper
        example_checksum_lower short netId_def on_network_def contract_address_def
        example_pending_def example_constants_def example_mainnet_def example_lib_calls
        table_entry_def trx_options_def spread_def Let_def str_eq_iff
        str_append [symmetric] str_eq_Nil)
qed

theorem delegateBySig_sends_what_is_no_address_witness:
  "map (\<lambda>ev. case ev of Trx c \<Rightarrow> hd (c_parameters c) | _ \<Rightarrow> JUndefined)
     (fst (delegateBySig example_constants example_lib example_pending
        (JString (str ''NOT AN ADDRESS, BUT NO SHORTER THAN 42 UNITS'')) (JNumber 42) (JNumber 9999999999)
        (JObject True [(''v'', JString (str ''0x1b'')), (''r'', JString (str ''0x13'')),
                       (''s'', JString (str ''0x1d''))]) []))
     = [JString (str ''NOT AN ADDRESS, BUT NO SHORTER THAN 42 UNITS'')]"
  using delegateBySig_sends_what_is_no_address by simp

section \<open>\<^verbatim>\<open>createDelegateSignature\<close>\<close>

text \<open>
  C6. On an instance whose network resolves to \<open>n\<close>, with the address table populated for
  \<open>n\<close>. The user's address is the \<open>address\<close> property of the provider when that is
  truthy; otherwise what awaiting the provider's \<open>getAddress\<close> gives, when the provider has
  that method; otherwise the \<open>address\<close> property as it is. When \<open>getAddress\<close> fails the
  promise rejects with its error and nothing is requested. Otherwise
  \<^verbatim>\<open>createDelegateSignature\<close> reads \<^verbatim>\<open>nonces(user address)\<close> from the UCORE address of \<open>n\<close>;
  when the read fails, or \<open>r.toString()\<close> throws for the value \<open>r\<close> read, the promise rejects
  with that error and no signature is asked for; when \<open>r.toString()\<close> is \<open>s\<close>, exactly one
  signature is asked for: over the domain with name \<^verbatim>\<open>Ucore\<close>, chain id the id of \<open>n\<close> and
  verifying contract the UCORE address of \<open>n\<close>; with primary type \<^verbatim>\<open>Delegation\<close>; over the
  message with the delegatee given, the nonce \<open>+s\<close> and the expiry given, or \<open>10e9\<close> when
  none is given.
\<close>

theorem createDelegateSignature_typed_data:
  assumes "resolved_network this = Some n"
    and "map_of (address K) (net_name n) = Some t"
  shows "createDelegateSignature K L this delegatee expiry =
     (let p = inst_provider this;
          user = (if truthy (p_address p) then Inr (p_address p)
                  else (case p_getAddress p of None \<Rightarrow> Inr (p_address p) | Some a \<Rightarrow> a))
      in case user of
           Inl e \<Rightarrow> ([], Inl e)
         | Inr userAddress \<Rightarrow>
             (let c = \<lparr>c_address = table_entry t (str ''UCORE''),
                       c_method = ''function nonces(address) returns (uint)'',
                       c_parameters = [userAddress],
                       c_options = [(''provider'', inst_originalProvider this)]\<rparr>
              in case eth_read L c of
                   Throws e \<Rightarrow> ([Read c], Inl e)
                 | Rejects e \<Rightarrow> ([Read c], Inl e)
                 | Resolves r \<Rightarrow>
                     (case method_toString L r of
                        Inl e \<Rightarrow> ([Read c], Inl e)
                      | Inr s \<Rightarrow>
                          (let q = \<lparr>s_domain = \<lparr>d_name = ''Ucore'', d_chainId = net_id n,
                                                  d_verifyingContract = table_entry t (str ''UCORE'')\<rparr>,
                                    s_primaryType = ''Delegation'',
                                    s_message = \<lparr>m_delegatee = delegatee,
                                                   m_nonce = unaryPlus L (JString s),
                                                   m_expiry = (if expiry = JUndefined
                                                               then JNumber 10000000000 else expiry)\<rparr>,
                                    s_types = [(''EIP712Domain'',
                                                 [(''name'', ''string''), (''chainId'', ''uint256''),
                                                  (''verifyingContract'', ''address'')]),
                                               (''Delegation'',
                                                 [(''delegatee'', ''address''), (''nonce'', ''uint256''),
                                                  (''expiry'', ''uint256'')])],
                                    s_signer = (case p_getSigner p of
                                                  None \<Rightarrow> ProviderItself p
                                                | Some g \<Rightarrow> Signer g)\<rparr>
                           in ([Read c, Sign q], awaited (sign L q))))))"
proof -
  from netId_resolved [OF assms(1)] obtain u' where
    u': "netId this = Inr u'" "inst_network u' = Some n" "inst_provider u' = inst_provider this"
      "inst_originalProvider u' = inst_originalProvider this"
    by blast
  note ca = contract_address_resolved [OF u'(2) assms(2)]
  show ?thesis
    by (simp add: createDelegateSignature_def Let_def u' ca user_address_def delegate_types_def
        split: sum.splits outcome.splits option.splits)
qed

theorem createDelegateSignature_typed_data_witness:
  "createDelegateSignature example_constants example_lib example_pending
     (JString (str ''0xa0df350d2637096571F7A701CBc1C5fdE30dF76A'')) JUndefined =
     ([Read \<lparr>c_address = JString (str ''0xC2''),
              c_method = ''function nonces(address) returns (uint)'',
              c_parameters = [JString (str ''0x00000000000000000000000000000000000000aa'')],
              c_options = [(''provider'', Val (JString (str ''mainnet'')))]\<rparr>,
       Sign \<lparr>s_domain = \<lparr>d_name = ''Ucore'', d_chainId = 56,
                            d_verifyingContract = JString (str ''0xC2'')\<rparr>,
              s_primaryType = ''Delegation'',
              s_message = \<lparr>m_delegatee = JString (str ''0xa0df350d2637096571F7A701CBc1C5fdE30dF76A''),
                            m_nonce = JNumber 7, m_expiry = JNumber 10000000000\<rparr>,
              s_types = [(''EIP712Domain'', [(''name'', ''string''), (''chainId'', ''uint256''),
                                             (''verifyingContract'', ''address'')]),
                         (''Delegation'', [(''delegatee'', ''address''), (''nonce'', ''uint256''),
                                           (''expiry'', ''uint256'')])],
              s_signer = Signer 1\<rparr>],
      Inr (JObject True [(''v'', JString (str ''0x1b'')), (''r'', JString (str ''0x02'')),
                         (''s'', JString (str ''0x03''))]))
   \<and> createDelegateSignature example_constants example_lib
       (example_pending\<lparr>inst_provider := example_wallet\<rparr>)
       (JString (str ''0xa0df350d2637096571F7A701CBc1C5fdE30dF76A'')) (JNumber 1700000000) =
     ([Read \<lparr>c_address = JString (str ''0xC2''),
              c_method = ''function nonces(address) returns (uint)'',
              c_parameters = [JString (str ''0x00000000000000000000000000000000000000bb'')],
              c_options = [(''provider'', Val (JString (str ''mainnet'')))]\<rparr>,
       Sign \<lparr>s_domain = \<lparr>d_name = ''Ucore'', d_chainId = 56,
                            d_verifyingContract = JString (str ''0xC2'')\<rparr>,
              s_primaryType = ''Delegation'',
              s_message = \<lparr>m_delegatee = JString (str ''0xa0df350d2637096571F7A701CBc1C5fdE30dF76A''),
                            m_nonce = JNumber 7, m_expiry = JNumber 1700000000\<rparr>,
              s_types = [(''EIP712Domain'', [(''name'', ''string''), (''chainId'', ''uint256''),
                                             (''verifyingContract'', ''address'')]),
                         (''Delegation'', [(''delegatee'', ''address''), (''nonce'', ''uint256''),
                                           (''expiry'', ''uint256'')])],
              s_signer = ProviderItself example_wallet\<rparr>],
      Inr (JObject True [(''v'', JString (str ''0x1b'')), (''r'', JString (str ''0x02'')),
                         (''s'', JString (str ''0x03''))]))
   \<and> createDelegateSignature example_constants example_lib
       (example_pending\<lparr>inst_provider := example_wallet\<lparr>p_getAddress := Some (Inl example_error)\<rparr>\<rparr>)
       (JString (str ''0xa0df350d2637096571F7A701CBc1C5fdE30dF76A'')) JUndefined =
     ([], Inl example_error)
   \<and> fst (createDelegateSignature example_constants example_lib
       (example_pending\<lparr>inst_provider := example_wallet\<lparr>p_getAddress := None\<rparr>\<rparr>)
       (JString (str ''0xa0df350d2637096571F7A701CBc1C5fdE30dF76A'')) JUndefined) ! 0 =
     Read \<lparr>c_address = JString (str ''0xC2''),
            c_method = ''function nonces(address) returns (uint)'',
            c_parameters = [JUndefined],
            c_options = [(''provider'', Val (JString (str ''mainnet'')))]\<rparr>"
proof -
  have res: "\<And>p. resolved_network (example_pending\<lparr>inst_provider := p\<rparr>) = Some example_mainnet"
    by (simp add: resolved_network_def example_pending_def)
  note defs = Let_def table_entry_def example_pending_def example_provider_def example_wallet_def
    example_mainnet_def example_lib_calls method_toString_def
    example_lib_calls(13) [unfolded str_def, simplified] str_def
  have w1: "createDelegateSignature example_constants example_lib example_pending
     (JString (str ''0xa0df350d2637096571F7A701CBc1C5fdE30dF76A'')) JUndefined =
     ([Read \<lparr>c_address = JString (str ''0xC2''),
              c_method = ''function nonces(address) returns (uint)'',
              c_parameters = [JString (str ''0x00000000000000000000000000000000000000aa'')],
              c_options = [(''provider'', Val (JString (str ''mainnet'')))]\<rparr>,
       Sign \<lparr>s_domain = \<lparr>d_name = ''Ucore'', d_chainId = 56,
                            d_verifyingContract = JString (str ''0xC2'')\<rparr>,
              s_primaryType = ''Delegation'',
              s_message = \<lparr>m_delegatee = JString (str ''0xa0df350d2637096571F7A701CBc1C5fdE30dF76A''),
                            m_nonce = JNumber 7, m_expiry = JNumber 10000000000\<rparr>,
              s_types = [(''EIP712Domain'', [(''name'', ''string''), (''chainId'', ''uint256''),
                                             (''verifyingContract'', ''address'')]),
                         (''Delegation'', [(''delegatee'', ''address''), (''nonce'', ''uint256''),
                                           (''expiry'', ''uint256'')])],
              s_signer = Signer 1\<rparr>],
      Inr (JObject True [(''v'', JString (str ''0x1b'')), (''r'', JString (str ''0x02'')),
                         (''s'', JString (str ''0x03''))]))"
    using createDelegateSignature_typed_data [OF example_resolved example_table,
        where L = example_lib and delegatee = "JString (str ''0xa0df350d2637096571F7A701CBc1C5fdE30dF76A'')"
          and expiry = JUndefined]
    by (simp add: defs)
  have w2: "createDelegateSignature example_constants example_lib
       (example_pending\<lparr>inst_provider := example_wallet\<rparr>)
       (JString (str ''0xa0df350d2637096571F7A701CBc1C5fdE30dF76A'')) (JNumber 1700000000) =
     ([Read \<lparr>c_address = JString (str ''0xC2''),
              c_method = ''function nonces(address) returns (uint)'',
              c_parameters = [JString (str ''0x00000000000000000000000000000000000000bb'')],
              c_options = [(''provider'', Val (JString (str ''mainnet'')))]\<rparr>,
       Sign \<lparr>s_domain = \<lparr>d_name = ''Ucore'', d_chainId = 56,
                            d_verifyingContract = JString (str ''0xC2'')\<rparr>,
              s_primaryType = ''Delegation'',
              s_message = \<lparr>m_delegatee = JString (str ''0xa0df350d2637096571F7A701CBc1C5fdE30dF76A''),
                            m_nonce = JNumber 7, m_expiry = JNumber 1700000000\<rparr>,
              s_types = [(''EIP712Domain'', [(''name'', ''string''), (''chainId'', ''uint256''),
                                             (''verifyingContract'', ''address'')]),
                         (''Delegation'', [(''delegatee'', ''address''), (''nonce'', ''uint256''),
                                           (''expiry'', ''uint256'')])],
              s_signer = ProviderItself example_wallet\<rparr>],
      Inr (JObject True [(''v'', JString (str ''0x1b'')), (''r'', JString (str ''0x02'')),
                         (''s'', JString (str ''0x03''))]))"
    using createDelegateSignature_typed_data [OF res example_table,
        where L = example_lib and delegatee = "JString (str ''0xa0df350d2637096571F7A701CBc1C5fdE30dF76A'')"
          and expiry = "JNumber 1700000000" and p1 = example_wallet]
    by (simp add: defs)
  have w3: "createDelegateSignature example_constants example_lib
       (example_pending\<lparr>inst_provider := example_wallet\<lparr>p_getAddress := Some (Inl example_error)\<rparr>\<rparr>)
       (JString (str ''0xa0df350d2637096571F7A701CBc1C5fdE30dF76A'')) JUndefined =
     ([], Inl example_error)"
    using createDelegateSignature_typed_data [OF res example_table,
        where L = example_lib and delegatee = "JString (str ''0xa0df350d2637096571F7A701CBc1C5fdE30dF76A'')"
          and expiry = JUndefined and p1 = "example_wallet\<lparr>p_getAddress := Some (Inl example_error)\<rparr>"]
    by (simp add: defs)
  have w4: "fst (createDelegateSignature example_constants example_lib
       (example_pending\<lparr>inst_provider := example_wallet\<lparr>p_getAddress := None\<rparr>\<rparr>)
       (JString (str ''0xa0df350d2637096571F7A701CBc1C5fdE30dF76A'')) JUndefined) ! 0 =
     Read \<lparr>c_address = JString (str ''0xC2''),
            c_method = ''function nonces(address) returns (uint)'',
            c_parameters = [JUndefined],
            c_options = [(''provider'', Val (JString (str ''mainnet'')))]\<rparr>"
    using createDelegateSignature_typed_data [OF res example_table,
        where L = example_lib and delegatee = "JString (str ''0xa0df350d2637096571F7A701CBc1C5fdE30dF76A'')"
          and expiry = JUndefined and p1 = "example_wallet\<lparr>p_getAddress := None\<rparr>"]
    by (simp add: defs)
  from w1 w2 w3 w4 show ?thesis
    by (intro conjI)
qed

section \<open>The instance built by the constructor\<close>

lemma map_of_spread: "map_of (spread obj src) = map_of obj ++ map_of (rev src)"
proof (induction src arbitrary: obj)
  case Nil
  show ?case by (simp add: spread_def)
next
  case (Cons kv src)
  obtain k v where kv: "kv = (k, v)" by (cases kv)
  have "spread obj (kv # src) = spread (AList.update k v obj) src"
    by (simp add: spread_def kv)
  then have "map_of (spread obj (kv # src)) = (map_of obj)(k \<mapsto> v) ++ map_of (rev src)"
    by (simp only: Cons.IH update_conv')
  also have "\<dots> = map_of obj ++ map_of (rev (kv # src))"
    by (simp add: kv map_add_def fun_eq_iff split: option.splits)
  finally show ?case .
qed

lemma set_update_subset: "set (AList.update k v al) \<subseteq> insert (k, v) (set al)"
  by (induction al) auto

lemma set_spread_subset: "set (spread obj src) \<subseteq> set obj \<union> set src"
proof (induction src arbitrary: obj)
  case Nil
  show ?case by (simp add: spread_def)
next
  case (Cons kv src)
  obtain k v where kv: "kv = (k, v)" by (cases kv)
  have "spread obj (kv # src) = spread (AList.update k v obj) src"
    by (simp add: spread_def kv)
  then have "set (spread obj (kv # src)) \<subseteq> set (AList.update k v obj) \<union> set src"
    using Cons.IH by simp
  with set_update_subset [of k v obj] show ?case
    by (auto simp: kv)
qed

lemma member_comp:
  "member comp ''claimUcore'' = JFunction ''ucore'' ''claimUcore''"
  "member comp ''delegate'' = JFunction ''ucore'' ''delegate''"
  "member comp ''delegateBySig'' = JFunction ''ucore'' ''delegateBySig''"
  "member comp ''createDelegateSignature'' = JFunction ''ucore'' ''createDelegateSignature''"
  "member comp ''getMintableUAI'' = JFunction ''ucore'' ''getMintableUAI''"
  "member comp ''getUAIMintRate'' = JFunction ''ucore'' ''getUAIMintRate''"
  "member comp ''mintUAI'' = JFunction ''ucore'' ''mintUAI''"
  "member comp ''repayUAI'' = JFunction ''ucore'' ''repayUAI''"
  "member comp ''getMintableVAI'' = JUndefined"
  "member comp ''getVAIMintRate'' = JUndefined"
  "member comp ''mintVAIGuardianPaused'' = JUndefined"
  "member comp ''repayVAIGuardianPaused'' = JUndefined"
  "member comp ''mintedVAIOf'' = JUndefined"
  "member comp ''mintedVAIs'' = JUndefined"
  "member comp ''vaiController'' = JUndefined"
  "member comp ''vaiMintRate'' = JUndefined"
  "member comp ''mintVAI'' = JUndefined"
  "member comp ''repayVAI'' = JUndefined"
  by (simp_all add: member_def comp_def)

text \<open>
  C10. Whatever the provider argument, the instance has \<^verbatim>\<open>claimUcore\<close>, \<^verbatim>\<open>delegate\<close>,
  \<^verbatim>\<open>delegateBySig\<close> and \<^verbatim>\<open>createDelegateSignature\<close> bound to the functions of those names
  of the module \<^verbatim>\<open>./ucore\<close>; each of its ten VAI-named properties exists and is
  undefined, because that module has no export of such a name; and, provided the three
  modules spread into the instance do not export them, none of \<^verbatim>\<open>getMintableUAI\<close>,
  \<^verbatim>\<open>getUAIMintRate\<close>, \<^verbatim>\<open>mintUAI\<close> and \<^verbatim>\<open>repayUAI\<close> of \<^verbatim>\<open>./ucore\<close> is the value of any
  property of the instance.
\<close>

theorem Ucore_binds_comp_functions:
  assumes "\<forall>f \<in> {''getMintableUAI'', ''getUAIMintRate'', ''mintUAI'', ''repayUAI''}.
             JFunction ''ucore'' f \<notin> snd ` set (vToken M @ priceFeed M @ gov M)"
  shows "(\<forall>f \<in> {''claimUcore'', ''delegate'', ''delegateBySig'', ''createDelegateSignature''}.
            map_of (inst_members (Ucore L M provider options)) f = Some (JFunction ''ucore'' f))
     \<and> (\<forall>f \<in> {''getMintableVAI'', ''getVAIMintRate'', ''mintVAIGuardianPaused'',
               ''repayVAIGuardianPaused'', ''mintedVAIOf'', ''mintedVAIs'', ''vaiController'',
               ''vaiMintRate'', ''mintVAI'', ''repayVAI''}.
            map_of (inst_members (Ucore L M provider options)) f = Some JUndefined
            \<and> member comp f = JUndefined)
     \<and> (\<forall>f \<in> {''getMintableUAI'', ''getUAIMintRate'', ''mintUAI'', ''repayUAI''}.
            member comp f = JFunction ''ucore'' f
            \<and> JFunction ''ucore'' f \<notin> snd ` set (inst_members (Ucore L M provider options)))"
proof -
  have m: "inst_members (Ucore L M provider options) = instance_members M"
    by (simp add: Ucore_def Let_def)
  have bound: "map_of (instance_members M) f = Some (JFunction ''ucore'' f)"
    if "f \<in> {''claimUcore'', ''delegate'', ''delegateBySig'', ''createDelegateSignature''}" for f
    using that by (auto simp: instance_members_def map_of_spread member_comp)
  have undef: "map_of (instance_members M) f = Some JUndefined"
    if "f \<in> {''getMintableVAI'', ''getVAIMintRate'', ''mintVAIGuardianPaused'',
               ''repayVAIGuardianPaused'', ''mintedVAIOf'', ''mintedVAIs'', ''vaiController'',
               ''vaiMintRate'', ''mintVAI'', ''repayVAI''}" for f
    using that by (auto simp: instance_members_def map_of_spread member_comp)
  have absent: "JFunction ''ucore'' f \<notin> snd ` set (instance_members M)"
    if f: "f \<in> {''getMintableUAI'', ''getUAIMintRate'', ''mintUAI'', ''repayUAI''}" for f
  proof
    assume "JFunction ''ucore'' f \<in> snd ` set (instance_members M)"
    then obtain k where "(k, JFunction ''ucore'' f) \<in> set (instance_members M)"
      by force
    with set_spread_subset [of "[]"] have
      "(k, JFunction ''ucore'' f) \<in> set (controller @ vToken M @ priceFeed M @ gov M) \<or>
       JFunction ''ucore'' f \<in> {JFunction ''ucore'' ''claimUcore'', JFunction ''ucore'' ''delegate'',
          JFunction ''ucore'' ''delegateBySig'', JFunction ''ucore'' ''createDelegateSignature'',
          JUndefined}"
      unfolding instance_members_def member_comp by fastforce
    moreover have "(k, JFunction ''ucore'' f) \<notin> set controller"
      by (auto simp: controller_def)
    moreover have "(k, JFunction ''ucore'' f) \<notin> set (vToken M @ priceFeed M @ gov M)"
    proof
      assume "(k, JFunction ''ucore'' f) \<in> set (vToken M @ priceFeed M @ gov M)"
      then have "snd (k, JFunction ''ucore'' f) \<in> snd ` set (vToken M @ priceFeed M @ gov M)"
        by (rule imageI)
      moreover from assms f
      have "JFunction ''ucore'' f \<notin> snd ` set (vToken M @ priceFeed M @ gov M)"
        by (rule bspec)
      ultimately show False
        by simp
    qed
    ultimately show False
      using f by auto
  qed
  from bound undef absent show ?thesis
    unfolding m using member_comp by auto
qed

theorem Ucore_binds_comp_functions_witness:
  "map_of (inst_members (Ucore example_lib example_modules (Val (JString (str ''testnet''))) []))
     ''delegate'' = Some (JFunction ''ucore'' ''delegate'')
   \<and> map_of (inst_members (Ucore example_lib example_modules (Val (JString (str ''testnet''))) []))
     ''mintVAI'' = Some JUndefined
   \<and> JFunction ''ucore'' ''mintUAI''
       \<notin> snd ` set (inst_members (Ucore example_lib example_modules (Val (JString (str ''testnet''))) []))"
proof -
  have "\<forall>f \<in> {''getMintableUAI'', ''getUAIMintRate'', ''mintUAI'', ''repayUAI''}.
             JFunction ''ucore'' f \<notin> snd ` set (vToken example_modules @ priceFeed example_modules
                                                  @ gov example_modules)"
    by (simp add: example_modules_def)
  from Ucore_binds_comp_functions [OF this, of example_lib "Val (JString (str ''testnet''))" "[]"]
  show ?thesis by simp
qed

section \<open>Functions that read the network without waiting for it\<close>

lemma Ucore_starts_pending:
  "inst_network (Ucore L M provider options) = None
   \<and> inst_networkPromise (Ucore L M provider options) \<noteq> None"
  by (simp add: Ucore_def Let_def)

lemma controller_read_on_pending:
  assumes "inst_network u = None"
  shows "controller_read K L u method parameters options = ([], Inl (undefined_property (str ''name'')))"
  using assms by (simp add: controller_read_def contract_address_def)

text \<open>
  C1, evaluated. \<open>example_pending\<close> is an instance whose network promise is still there
  and will resolve to the main network. On it each of the eight UAI read functions
  fails at once with the TypeError of \<^verbatim>\<open>this._network.name\<close> and makes no request, while
  \<^verbatim>\<open>delegate\<close> and \<^verbatim>\<open>enterMarkets\<close> wait and send their transaction. On the same instance
  after the promise has resolved, \<^verbatim>\<open>getUAIMintRate\<close> makes its read.
\<close>

theorem uai_reads_do_not_wait:
  "getUAIMintRate example_constants example_lib example_pending [] = ([], Inl (undefined_property (str ''name'')))
   \<and> mintUAIGuardianPaused example_constants example_lib example_pending [] =
       ([], Inl (undefined_property (str ''name'')))
   \<and> repayUAIGuardianPaused example_constants example_lib example_pending [] =
       ([], Inl (undefined_property (str ''name'')))
   \<and> mintedUAIOf example_constants example_lib example_pending
       (JString (str ''0xa0df350d2637096571f7a701cbc1c5fde30df76a'')) [] = ([], Inl (undefined_property (str ''name'')))
   \<and> mintedUAIs example_constants example_lib example_pending
       (JString (str ''0xa0df350d2637096571f7a701cbc1c5fde30df76a'')) [] = ([], Inl (undefined_property (str ''name'')))
   \<and> uaiController example_constants example_lib example_pending [] =
       ([], Inl (undefined_property (str ''name'')))
   \<and> uaiMintRate example_constants example_lib example_pending [] =
       ([], Inl (undefined_property (str ''name'')))
   \<and> getMintableUAI example_constants example_lib example_pending
       (JString (str ''0xa0df350d2637096571f7a701cbc1c5fde30df76a'')) [] = ([], Inl (undefined_property (str ''name'')))
   \<and> delegate example_constants example_lib example_pending
       (JString (str ''0xa0df350d2637096571f7a701cbc1c5fde30df76a'')) [] =
       ([Trx \<lparr>c_address = JString (str ''0xC2''), c_method = ''delegate'',
               c_parameters = [JString (str ''0xa0df350d2637096571F7A701CBc1C5fdE30dF76A'')],
               c_options = [(''_ucoreProvider'', ProviderObject example_provider),
                            (''abi'', Abi ''UCORE'')]\<rparr>],
        Inr (JObject True [(''hash'', JString (str ''0x01''))]))
   \<and> getUAIMintRate example_constants example_lib example_ready [] =
       ([Read \<lparr>c_address = JString (str ''0xC1''), c_method = ''getUAIMintRate'', c_parameters = [],
                c_options = [(''_ucoreProvider'', ProviderObject example_provider),
                             (''abi'', Abi ''Controller'')]\<rparr>],
        Inr (JString (str ''7'')))"
  by (simp add: getUAIMintRate_def mintUAIGuardianPaused_def repayUAIGuardianPaused_def
      mintedUAIOf_def mintedUAIs_def uaiController_def uaiMintRate_def getMintableUAI_def
      delegate_def controller_read_def result_toString_def contract_address_def
      address_argument_def example_checksum_lower [unfolded str_def, simplified] netId_def
      on_network_def example_pending_def example_ready_def example_constants_def
      example_mainnet_def example_lib_calls method_toString_def table_entry_def trx_options_def
      spread_def str_def Let_def)

section \<open>The tags of the validation errors\<close>

text \<open>
  C2, evaluated. The argument error of \<^verbatim>\<open>exitMarket\<close> is tagged \<^verbatim>\<open>exitMarkets\<close> and the
  argument error of \<^verbatim>\<open>repayUAI\<close> is tagged \<^verbatim>\<open>mintUAI\<close>.
\<close>

theorem validation_errors_carry_another_name:
  "exitMarket example_constants example_lib example_ready (JString []) [] =
     ([], Inl (Error (str ''Ucore [exitMarkets] | Argument `market` must be a string of a vToken market name.'')))
   \<and> exitMarket example_constants example_lib example_ready (JString (str ''BTC'')) [] =
     ([], Inl (Error (str ''Ucore [exitMarkets] | Provided market `vBTC` is not a recognized vToken.'')))
   \<and> repayUAI example_constants example_lib example_ready JNull [] =
     ([], Inl (Error (str ''Ucore [mintUAI] | Argument `amount` must be a string, number, or BigNumber.'')))"
  by (simp add: exitMarket_def repayUAI_def amount_argument_def netId_def on_network_def
      example_ready_def example_pending_def example_constants_def with_v_def str_def Let_def)

section \<open>The shared decimals object\<close>

text \<open>
  C8, evaluated. With \<open>USDC\<close> at 6 in the initial decimals object: after
  \<^verbatim>\<open>new Ucore('testnet')\<close> alone the object exposed as \<^verbatim>\<open>Ucore.decimals\<close> still has 6; after
  \<^verbatim>\<open>new Ucore('testnet')\<close> and then \<^verbatim>\<open>new Ucore('mainnet')\<close> it has 18, and the decimals of the
  first instance, which is on the test network, are that same object.
\<close>

theorem constructor_overwrites_shared_decimals:
  "decimals_of (initial_store example_constants) Ucore_decimals ''USDC'' = Some 6
   \<and> (case construct_all example_lib example_modules (initial_store example_constants)
             [Val (JString (str ''testnet''))] of
        (h, us) \<Rightarrow> decimals_of h Ucore_decimals ''USDC'' = Some 6
                    \<and> map inst_network us = [Some example_testnet]
                    \<and> map inst_decimals us = [Some Ucore_decimals])
   \<and> (case construct_all example_lib example_modules (initial_store example_constants)
             [Val (JString (str ''testnet'')), Val (JString (str ''mainnet''))] of
        (h, us) \<Rightarrow> decimals_of h Ucore_decimals ''USDC'' = Some 18
                    \<and> decimals_of h Ucore_decimals ''USDT'' = Some 18
                    \<and> map inst_network us = [Some example_testnet, Some example_mainnet]
                    \<and> map inst_decimals us = [Some Ucore_decimals, Some Ucore_decimals])"
  by (simp add: decimals_of_def initial_store_def Ucore_decimals_def decimals_ref_def settle_def
      Ucore_def network_resolved_def on_network_def example_lib_def example_constants_def
      example_mainnet_def example_testnet_def option_of_def Let_def str_def)

lemma mainnet_writes_through_the_alias:
  assumes "inst_networkPromise u = Some (Inr n)" and "net_id n = 56 \<or> net_name n = str ''mainnet''"
  shows "decimals_of (fst (settle (h, u))) Ucore_decimals ''USDC'' = Some 18"
  using assms
  by (simp add: settle_def network_resolved_def on_network_def decimals_of_def Ucore_decimals_def
      Let_def update_conv')

section \<open>The checksum and the case of its argument\<close>

lemma upper_unit_plain:
  assumes "u < 256" and "u \<noteq> 181" and "u \<noteq> 223" and "u \<noteq> 255"
  shows "\<exists>w. upper_unit u = [w] \<and> w < 256 \<and> w \<noteq> 181 \<and> w \<noteq> 223 \<and> w \<noteq> 255
             \<and> lower_unit w = lower_unit u \<and> upper_unit w = [w]"
proof (cases "(97 \<le> u \<and> u \<le> 122) \<or> (224 \<le> u \<and> u \<le> 254 \<and> u \<noteq> 247)")
  case True
  then have up: "upper_unit u = [u - 32]"
    by (simp add: upper_unit_def)
  from True have capital: "(65 \<le> u - 32 \<and> u - 32 \<le> 90) \<or> (192 \<le> u - 32 \<and> u - 32 \<le> 222 \<and> u - 32 \<noteq> 215)"
    by arith
  then have low: "lower_unit (u - 32) = u - 32 + 32"
    by (simp add: lower_unit_def)
  from True have "\<not> ((65 \<le> u \<and> u \<le> 90) \<or> (192 \<le> u \<and> u \<le> 222 \<and> u \<noteq> 215))"
    by arith
  then have low': "lower_unit u = u"
    by (simp add: lower_unit_def)
  from True have restored: "u - 32 + 32 = u"
    by arith
  from capital have stays: "upper_unit (u - 32) = [u - 32]"
    unfolding upper_unit_def by (auto split: if_splits)
  from capital have "u - 32 < 256 \<and> u - 32 \<noteq> 181 \<and> u - 32 \<noteq> 223 \<and> u - 32 \<noteq> 255"
    by arith
  with up low low' restored stays show ?thesis
    by simp
next
  case False
  then have "upper_unit u =
      (if u = 223 then [83, 83] else if u = 181 then [924] else if u = 255 then [376] else [u])"
    unfolding upper_unit_def by (rule if_not_P)
  with assms have "upper_unit u = [u]"
    by simp
  with assms show ?thesis
    by simp
qed

lemma apply_checksum_plain:
  assumes "\<forall>u \<in> set s. u < 256 \<and> u \<noteq> 181 \<and> u \<noteq> 223 \<and> u \<noteq> 255"
  shows "(\<forall>u \<in> set (apply_checksum L h s). u < 256 \<and> u \<noteq> 181 \<and> u \<noteq> 223 \<and> u \<noteq> 255)
       \<and> map lower_unit (apply_checksum L h s) = map lower_unit s
       \<and> apply_checksum L h (apply_checksum L h s) = apply_checksum L h s"
  using assms
proof (induction L h s rule: apply_checksum.induct)
  case (1 L hash)
  show ?case by simp
next
  case (2 L u us)
  then show ?case by simp
next
  case (3 L h hs u us)
  from 3 have u: "u < 256" "u \<noteq> 181" "u \<noteq> 223" "u \<noteq> 255"
    by simp_all
  from 3 have IH: "(\<forall>u \<in> set (apply_checksum L hs us). u < 256 \<and> u \<noteq> 181 \<and> u \<noteq> 223 \<and> u \<noteq> 255)
       \<and> map lower_unit (apply_checksum L hs us) = map lower_unit us
       \<and> apply_checksum L hs (apply_checksum L hs us) = apply_checksum L hs us"
    by simp
  from upper_unit_plain [OF u] obtain w where
    w: "upper_unit u = [w]" "w < 256" "w \<noteq> 181" "w \<noteq> 223" "w \<noteq> 255"
       "lower_unit w = lower_unit u" "upper_unit w = [w]"
    by blast
  from u w show ?case
    using IH by (simp add: toUpperCase_def)
qed

lemma toChecksumAddress_idempotent:
  assumes "\<forall>u \<in> set s. u < 256 \<and> u \<noteq> 181 \<and> u \<noteq> 223 \<and> u \<noteq> 255"
    and "toChecksumAddress L s = Inr a"
  shows "toChecksumAddress L a = Inr a"
proof -
  from assms(1) have small: "\<forall>u \<in> set s. u < 256"
    by blast
  then have ls: "toLowerCase L s = map lower_unit s"
    by (simp add: toLowerCase_def)
  from assms(2) have len: "\<not> length (drop 2 (toLowerCase L s)) < 40"
    and a: "a = apply_checksum L
                  (keccak256 (map (\<lambda>u. u mod 256) (take 40 (drop 2 (toLowerCase L s))))) s"
    by (auto simp: toChecksumAddress_def Let_def split: if_splits)
  note plain = apply_checksum_plain [OF assms(1), of L
      "keccak256 (map (\<lambda>u. u mod 256) (take 40 (drop 2 (toLowerCase L s))))", folded a]
  from plain have "\<forall>u \<in> set a. u < 256"
    by blast
  then have "toLowerCase L a = map lower_unit a"
    by (simp add: toLowerCase_def)
  with plain ls have low: "toLowerCase L a = toLowerCase L s"
    by simp
  from plain have idem: "apply_checksum L
      (keccak256 (map (\<lambda>u. u mod 256) (take 40 (drop 2 (toLowerCase L s))))) a = a"
    by (simp add: a)
  show ?thesis
    using len by (simp add: toChecksumAddress_def Let_def low idem)
qed

text \<open>
  C9, evaluated. The address of the example written in upper case is returned as it is,
  the same address in lower case gets the EIP-55 capitals, and \<^verbatim>\<open>delegate\<close> forwards the
  upper-case spelling unchanged.
\<close>

theorem toChecksumAddress_depends_on_case:
  "toChecksumAddress example_lib (str ''0xA0DF350D2637096571F7A701CBC1C5FDE30DF76A'') =
     Inr (str ''0xA0DF350D2637096571F7A701CBC1C5FDE30DF76A'')
   \<and> toChecksumAddress example_lib (toLowerCase example_lib (str ''0xA0DF350D2637096571F7A701CBC1C5FDE30DF76A'')) =
     Inr (str ''0xa0df350d2637096571F7A701CBc1C5fdE30dF76A'')
   \<and> fst (delegate example_constants example_lib example_ready
            (JString (str ''0xA0DF350D2637096571F7A701CBC1C5FDE30DF76A'')) []) =
       [Trx \<lparr>c_address = JString (str ''0xC2''), c_method = ''delegate'',
              c_parameters = [JString (str ''0xA0DF350D2637096571F7A701CBC1C5FDE30DF76A'')],
              c_options = [(''_ucoreProvider'', ProviderObject example_provider),
                           (''abi'', Abi ''UCORE'')]\<rparr>]
   \<and> fst (delegate example_constants example_lib example_ready
            (JString (str ''0xa0df350d2637096571f7a701cbc1c5fde30df76a'')) []) =
       [Trx \<lparr>c_address = JString (str ''0xC2''), c_method = ''delegate'',
              c_parameters = [JString (str ''0xa0df350d2637096571F7A701CBc1C5fdE30dF76A'')],
              c_options = [(''_ucoreProvider'', ProviderObject example_provider),
                           (''abi'', Abi ''UCORE'')]\<rparr>]"
  by (simp add: example_checksum_upper [unfolded str_def, simplified]
      example_checksum_lower [unfolded str_def, simplified]
      example_lowercase [unfolded str_def, simplified] delegate_def
      address_argument_def netId_def contract_address_def example_ready_def on_network_def
      example_pending_def example_constants_def example_mainnet_def Let_def table_entry_def
      trx_options_def spread_def str_def)


theorem toChecksumAddress_depends_on_case_witness:
  "toChecksumAddress example_lib (str ''0xA0DF350D2637096571F7A701CBC1C5FDE30DF76A'')
     \<noteq> toChecksumAddress example_lib
         (toLowerCase example_lib (str ''0xA0DF350D2637096571F7A701CBC1C5FDE30DF76A''))"
  using toChecksumAddress_depends_on_case by (simp add: str_eq_iff)

section \<open>Failures of the contract and of the client library\<close>

text \<open>
  C3 as stated fails. When the contract answers \<^verbatim>\<open>getMintableUAI\<close> with error code 1,
  the SDK throws an error of its own; when \<^verbatim>\<open>getAddress\<close> of the provider fails inside
  \<^verbatim>\<open>claimUcore\<close>, the promise is fulfilled with the error object, its message prefixed.
\<close>

theorem contract_failure_is_replaced:
  "getMintableUAI example_constants example_lib_status example_ready example_address [] =
     ([Read (example_controller_call ''getMintableUAI''
              [JString (str ''0xa0df350d2637096571F7A701CBc1C5fdE30dF76A'')] [])],
      Inl (Error (str ''Ucore [getMintableUAI] | Contract error occured'')))
   \<and> claimUcore example_constants example_lib example_no_account [] =
     ([], Inr (JError \<lparr>err_name = ''Error'',
                       err_message = str ''Ucore [claimUcore] | unknown account #0''\<rparr>))"
  by (simp add: getMintableUAI_def claimUcore_def address_argument_def example_address_def
      example_checksum_lower [unfolded str_def, simplified] contract_address_def netId_def
      user_address_def prefixed_def mintable_result_def length_exceeds_one_def
      method_toString_def example_no_account_def example_ready_def on_network_def
      example_pending_def example_constants_def example_mainnet_def example_lib_status_def
      example_lib_calls example_controller_call_def table_entry_def trx_options_def spread_def
      Error_def str_def Let_def)

lemma awaited_Inl: "(awaited out = Inl e) = (out = Rejects e \<or> out = Throws e)"
  by (cases out) auto

lemma enterMarkets_surfaces:
  assumes "ev \<in> set (fst (enterMarkets K L this markets options))"
  shows "snd (enterMarkets K L this markets options) = awaited (outcome_of L ev)"
  using assms
  by (auto simp: enterMarkets_def Let_def split: sum.splits jsval.splits if_splits)

lemma exitMarket_surfaces:
  assumes "ev \<in> set (fst (exitMarket K L this market options))"
  shows "snd (exitMarket K L this market options) = awaited (outcome_of L ev)"
  using assms
  by (auto simp: exitMarket_def Let_def split: sum.splits jsval.splits if_splits)

lemma delegate_surfaces:
  assumes "ev \<in> set (fst (delegate K L this addr options))"
  shows "snd (delegate K L this addr options) = awaited (outcome_of L ev)"
  using assms
  by (auto simp: delegate_def Let_def split: sum.splits)

lemma delegateBySig_surfaces:
  assumes "ev \<in> set (fst (delegateBySig K L this addr nonce expiry signature options))"
  shows "snd (delegateBySig K L this addr nonce expiry signature options) = awaited (outcome_of L ev)"
  using assms
  by (auto simp: delegateBySig_def Let_def split: sum.splits if_splits)

lemma claimUcore_outcome:
  assumes "ev \<in> set (fst (claimUcore K L this options))"
  shows "snd (claimUcore K L this options)
           = returned_in_try (str ''Ucore [claimUcore] | '') (outcome_of L ev)"
  using assms
  by (auto simp: claimUcore_def Let_def split: sum.splits)

lemma mintUAI_outcome:
  assumes "ev \<in> set (fst (mintUAI K L this amount options))"
  shows "snd (mintUAI K L this amount options)
           = returned_in_try (str ''Ucore [mintUAI] | '') (outcome_of L ev)"
  using assms
  by (auto simp: mintUAI_def Let_def split: sum.splits)

lemma repayUAI_outcome:
  assumes "ev \<in> set (fst (repayUAI K L this amount options))"
  shows "snd (repayUAI K L this amount options)
           = returned_in_try (str ''Ucore [repayUAI] | '') (outcome_of L ev)"
  using assms
  by (auto simp: repayUAI_def Let_def split: sum.splits)

lemma getUcoreBalance_surfaces:
  assumes "ev \<in> set (fst (getUcoreBalance K L addr prov))"
    and "awaited (outcome_of L ev) = Inl e"
  shows "snd (getUcoreBalance K L addr prov) = Inl e"
proof -
  define P where "P = createProvider L
      [(''provider'', if prov = Val JUndefined then Val (JString (str ''mainnet'')) else prov)]"
  show ?thesis
    using assms unfolding getUcoreBalance_def Let_def P_def [symmetric]
    by (auto split: sum.splits option.splits)
qed

lemma getUcoreAccrued_surfaces:
  assumes "ev \<in> set (fst (getUcoreAccrued K L addr prov))"
    and "awaited (outcome_of L ev) = Inl e"
  shows "snd (getUcoreAccrued K L addr prov) = Inl e"
proof -
  define P where "P = createProvider L
      [(''provider'', if prov = Val JUndefined then Val (JString (str ''mainnet'')) else prov)]"
  show ?thesis
    using assms unfolding getUcoreAccrued_def Let_def P_def [symmetric]
    by (auto split: sum.splits option.splits)
qed

lemma createDelegateSignature_surfaces:
  assumes "ev \<in> set (fst (createDelegateSignature K L this delegatee expiry))"
    and "awaited (outcome_of L ev) = Inl e"
  shows "snd (createDelegateSignature K L this delegatee expiry) = Inl e"
  using assms
  by (auto simp: createDelegateSignature_def Let_def split: sum.splits option.splits)

lemma getMintableUAI_surfaces:
  assumes "ev \<in> set (fst (getMintableUAI K L this addr options))"
    and "awaited (outcome_of L ev) = Inl e"
  shows "snd (getMintableUAI K L this addr options) = Inl e"
  using assms
  by (auto simp: getMintableUAI_def Let_def split: sum.splits)

lemma getMintableUAI_result:
  assumes "Read c \<in> set (fst (getMintableUAI K L this addr options))"
    and "eth_read L c = Resolves r"
  shows "snd (getMintableUAI K L this addr options)
           = mintable_result L (str ''Ucore [getMintableUAI] | '') r"
  using assms
  by (auto simp: getMintableUAI_def Let_def split: sum.splits)

lemma controller_read_cases:
  assumes "controller_read K L this method parameters options = (evs, r)" and "ev \<in> set evs"
  shows "r = awaited (outcome_of L ev)"
  using assms
  by (auto simp: controller_read_def Let_def split: sum.splits)

lemma controller_read_surfaces:
  assumes "ev \<in> set (fst (controller_read K L this method parameters options))"
    and "awaited (outcome_of L ev) = Inl e"
  shows "snd (controller_read K L this method parameters options) = Inl e"
  using assms controller_read_cases [where ev = ev and K = K and L = L and this = this
      and evs = "fst (controller_read K L this method parameters options)"
      and r = "snd (controller_read K L this method parameters options)"]
  by simp

lemma result_toString_read:
  assumes "ev \<in> set (fst (result_toString L (controller_read K L this method parameters options)))"
    and "awaited (outcome_of L ev) = Inl e"
  shows "snd (result_toString L (controller_read K L this method parameters options)) = Inl e"
proof (cases "controller_read K L this method parameters options")
  case (Pair evs r)
  with assms(1) have "ev \<in> set evs"
    by (cases r) (simp_all add: result_toString_def)
  from controller_read_cases [OF Pair this] assms(2) have "r = Inl e"
    by simp
  with Pair show ?thesis
    by (simp add: result_toString_def)
qed

lemma getUAIMintRate_surfaces:
  assumes "ev \<in> set (fst (getUAIMintRate K L this options))"
    and "awaited (outcome_of L ev) = Inl e"
  shows "snd (getUAIMintRate K L this options) = Inl e"
  using assms unfolding getUAIMintRate_def by (rule result_toString_read)

lemma uaiMintRate_surfaces:
  assumes "ev \<in> set (fst (uaiMintRate K L this options))"
    and "awaited (outcome_of L ev) = Inl e"
  shows "snd (uaiMintRate K L this options) = Inl e"
  using assms unfolding uaiMintRate_def by (rule result_toString_read)

lemma mintedUAIOf_surfaces:
  assumes "ev \<in> set (fst (mintedUAIOf K L this addr options))"
    and "awaited (outcome_of L ev) = Inl e"
  shows "snd (mintedUAIOf K L this addr options) = Inl e"
  using assms unfolding mintedUAIOf_def
  by (auto simp: result_toString_read split: sum.splits)

lemma mintedUAIs_surfaces:
  assumes "ev \<in> set (fst (mintedUAIs K L this addr options))"
    and "awaited (outcome_of L ev) = Inl e"
  shows "snd (mintedUAIs K L this addr options) = Inl e"
  using assms unfolding mintedUAIs_def
  by (auto simp: result_toString_read split: sum.splits)

lemma call_sdk_surfaces:
  assumes "ev \<in> set (fst (call_sdk K L this call))"
    and "awaited (outcome_of L ev) = Inl e"
  shows "snd (call_sdk K L this call) =
     (case call of
        ClaimUcore _ \<Rightarrow> returned_in_try (str ''Ucore [claimUcore] | '') (outcome_of L ev)
      | MintUAI _ _ \<Rightarrow> returned_in_try (str ''Ucore [mintUAI] | '') (outcome_of L ev)
      | RepayUAI _ _ \<Rightarrow> returned_in_try (str ''Ucore [repayUAI] | '') (outcome_of L ev)
      | _ \<Rightarrow> Inl e)"
proof (cases call)
  case (EnterMarkets markets options)
  with assms show ?thesis by (simp add: enterMarkets_surfaces)
next
  case (ExitMarket market options)
  with assms show ?thesis by (simp add: exitMarket_surfaces)
next
  case (GetUcoreBalance addr prov)
  with assms show ?thesis by (simp add: getUcoreBalance_surfaces)
next
  case (GetUcoreAccrued addr prov)
  with assms show ?thesis by (simp add: getUcoreAccrued_surfaces)
next
  case (ClaimUcore options)
  with assms show ?thesis by (simp add: claimUcore_outcome)
next
  case (Delegate addr options)
  with assms show ?thesis by (simp add: delegate_surfaces)
next
  case (DelegateBySig addr nonce expiry signature options)
  with assms show ?thesis by (simp add: delegateBySig_surfaces)
next
  case (CreateDelegateSignature delegatee expiry)
  with assms show ?thesis by (simp add: createDelegateSignature_surfaces)
next
  case (GetMintableUAI addr options)
  with assms show ?thesis by (simp add: getMintableUAI_surfaces)
next
  case (GetUAIMintRate options)
  with assms show ?thesis by (simp add: getUAIMintRate_surfaces)
next
  case (MintUAIGuardianPaused options)
  with assms show ?thesis by (simp add: mintUAIGuardianPaused_def controller_read_surfaces)
next
  case (RepayUAIGuardianPaused options)
  with assms show ?thesis by (simp add: repayUAIGuardianPaused_def controller_read_surfaces)
next
  case (MintedUAIOf addr options)
  with assms show ?thesis by (simp add: mintedUAIOf_surfaces)
next
  case (MintedUAIs addr options)
  with assms show ?thesis by (simp add: mintedUAIs_surfaces)
next
  case (UaiController options)
  with assms show ?thesis by (simp add: uaiController_def controller_read_surfaces)
next
  case (UaiMintRate options)
  with assms show ?thesis by (simp add: uaiMintRate_surfaces)
next
  case (MintUAI amount options)
  with assms show ?thesis by (simp add: mintUAI_outcome)
next
  case (RepayUAI amount options)
  with assms show ?thesis by (simp add: repayUAI_outcome)
qed

lemma getMintableUAI_status:
  assumes "Read c \<in> set (fst (getMintableUAI K L this addr options))"
    and "eth_read L c = Resolves (JArray (r0 # r1 # rs))"
    and "method_toString L r0 = Inr s0" and "s0 \<noteq> str ''0''"
  shows "snd (getMintableUAI K L this addr options)
           = Inl (Error (str ''Ucore [getMintableUAI] | Contract error occured''))"
  using assms
  by (simp add: getMintableUAI_result mintable_result_def length_exceeds_one_def
      str_append [symmetric])

lemma getMintableUAI_short:
  assumes "Read c \<in> set (fst (getMintableUAI K L this addr options))"
    and "eth_read L c = Resolves (JArray rs)" and "length rs \<le> 1"
  shows "snd (getMintableUAI K L this addr options)
           = Inl (Error (str ''Ucore [getMintableUAI] | Contract error occured''))"
  using assms
  by (simp add: getMintableUAI_result mintable_result_def length_exceeds_one_def
      str_append [symmetric])

lemma claimUcore_getAddress:
  assumes "netId this = Inr u" and "\<not> truthy (p_address (inst_provider u))"
    and "p_getAddress (inst_provider u) = Some (Inl e)"
  shows "claimUcore K L this options
           = ([], Inr (JError (prefixed (str ''Ucore [claimUcore] | '') e)))"
  using assms by (simp add: claimUcore_def user_address_def)

lemma claimUcore_no_table:
  assumes "netId this = Inr u" and "inst_network u = Some n"
    and "map_of (address K) (net_name n) = None"
    and "\<forall>e. p_getAddress (inst_provider u) \<noteq> Some (Inl e)"
  shows "claimUcore K L this options
           = ([], Inr (JError (prefixed (str ''Ucore [claimUcore] | '')
                                 (undefined_property (str ''Controller'')))))"
  using assms
  by (auto simp: claimUcore_def user_address_def contract_address_def Let_def
      split: sum.splits option.splits)

lemma mintUAI_no_table:
  assumes "netId this = Inr u" and "inst_network u = Some n"
    and "map_of (address K) (net_name n) = None"
    and "amount_argument L (str ''Ucore [mintUAI] | '') amount options = Inr a"
  shows "mintUAI K L this amount options
           = ([], Inr (JError (prefixed (str ''Ucore [mintUAI] | '')
                                 (undefined_property (str ''Controller'')))))"
  using assms by (simp add: mintUAI_def contract_address_def)

lemma repayUAI_no_table:
  assumes "netId this = Inr u" and "inst_network u = Some n"
    and "map_of (address K) (net_name n) = None"
    and "amount_argument L (str ''Ucore [mintUAI] | '') amount options = Inr a"
  shows "repayUAI K L this amount options
           = ([], Inr (JError (prefixed (str ''Ucore [repayUAI] | '')
                                 (undefined_property (str ''Controller'')))))"
  using assms by (simp add: repayUAI_def contract_address_def)

lemma mintable_result_values:
  "mintable_result L p JUndefined = Inl (undefined_property (str ''length''))"
  "mintable_result L p JNull = Inl (null_property (str ''length''))"
  "mintable_result L p (JNumber k) = Inl (Error (p @ str ''Contract error occured''))"
  "mintable_result L p (JString (str ''07'')) = Inr (JString (str ''7''))"
  "mintable_result L p (JObject x [(''0'', JString (str ''0'')), (''1'', JString (str ''5'')),
                                   (''length'', JNumber 2)]) = Inr (JString (str ''5''))"
  "1 < arity L m f \<Longrightarrow>
     mintable_result L p (JFunction m f) = Inl (undefined_property (str ''toString''))"
  by (simp_all add: mintable_result_def length_exceeds_one_def greater_than_one_def
      method_toString_def str_def)

text \<open>
  C3 as amended. For every function that \<^verbatim>\<open>controller.ts\<close> and \<^verbatim>\<open>ucore.ts\<close> export, called
  with any arguments: when the promise returned by a read, a transaction or the signing
  call rejects with \<open>e\<close>, the promise of the SDK function rejects with \<open>e\<close> itself; when
  such a call throws \<open>e\<close> before returning a promise, the promise of the SDK function
  rejects with \<open>e\<close> itself, except in \<^verbatim>\<open>claimUcore\<close>, \<^verbatim>\<open>mintUAI\<close> and \<^verbatim>\<open>repayUAI\<close>, where the
  call is inside \<^verbatim>\<open>try\<close>: there the promise is fulfilled with the error object, its message
  prefixed with the name of the function. The other failures that the SDK handles itself:
  \<^verbatim>\<open>getMintableUAI\<close> throws its own error when the read resolves to a list of two or more
  elements whose first element does not print as \<^verbatim>\<open>0\<close>, or to a shorter list;
  \<^verbatim>\<open>claimUcore\<close> returns the error of a failed \<^verbatim>\<open>getAddress\<close> as a value, its message
  prefixed; and \<^verbatim>\<open>claimUcore\<close>, \<^verbatim>\<open>mintUAI\<close> and \<^verbatim>\<open>repayUAI\<close> return as a value, prefixed, the
  TypeError of looking up the Controller address when the address table has no entry
  for the network.
\<close>

theorem client_rejections_pass_unchanged:
  "(ev \<in> set (fst (call_sdk K L this call)) \<longrightarrow> outcome_of L ev = Rejects e \<longrightarrow>
      snd (call_sdk K L this call) = Inl e)
   \<and> (ev \<in> set (fst (call_sdk K L this call)) \<longrightarrow> outcome_of L ev = Throws e \<longrightarrow>
      snd (call_sdk K L this call) =
        (case call of
           ClaimUcore _ \<Rightarrow> Inr (JError (prefixed (str ''Ucore [claimUcore] | '') e))
         | MintUAI _ _ \<Rightarrow> Inr (JError (prefixed (str ''Ucore [mintUAI] | '') e))
         | RepayUAI _ _ \<Rightarrow> Inr (JError (prefixed (str ''Ucore [repayUAI] | '') e))
         | _ \<Rightarrow> Inl e))
   \<and> (Read c \<in> set (fst (getMintableUAI K L this addr options)) \<longrightarrow>
      eth_read L c = Resolves (JArray (r0 # r1 # rs)) \<longrightarrow> method_toString L r0 = Inr s0 \<longrightarrow>
      s0 \<noteq> str ''0'' \<longrightarrow>
      snd (getMintableUAI K L this addr options)
        = Inl (Error (str ''Ucore [getMintableUAI] | Contract error occured'')))
   \<and> (Read c \<in> set (fst (getMintableUAI K L this addr options)) \<longrightarrow>
      eth_read L c = Resolves (JArray rs) \<longrightarrow> length rs \<le> 1 \<longrightarrow>
      snd (getMintableUAI K L this addr options)
        = Inl (Error (str ''Ucore [getMintableUAI] | Contract error occured'')))
   \<and> (netId this = Inr u \<longrightarrow> \<not> truthy (p_address (inst_provider u)) \<longrightarrow>
      p_getAddress (inst_provider u) = Some (Inl e) \<longrightarrow>
      claimUcore K L this options
        = ([], Inr (JError (prefixed (str ''Ucore [claimUcore] | '') e))))
   \<and> (netId this = Inr u \<longrightarrow> inst_network u = Some n \<longrightarrow>
      map_of (address K) (net_name n) = None \<longrightarrow>
      (\<forall>e. p_getAddress (inst_provider u) \<noteq> Some (Inl e)) \<longrightarrow>
      claimUcore K L this options
        = ([], Inr (JError (prefixed (str ''Ucore [claimUcore] | '')
                              (undefined_property (str ''Controller''))))))
   \<and> (netId this = Inr u \<longrightarrow> inst_network u = Some n \<longrightarrow>
      map_of (address K) (net_name n) = None \<longrightarrow>
      amount_argument L (str ''Ucore [mintUAI] | '') amount options = Inr a \<longrightarrow>
      mintUAI K L this amount options
        = ([], Inr (JError (prefixed (str ''Ucore [mintUAI] | '')
                              (undefined_property (str ''Controller'')))))
      \<and> repayUAI K L this amount options
        = ([], Inr (JError (prefixed (str ''Ucore [repayUAI] | '')
                              (undefined_property (str ''Controller''))))))"
proof -
  have rejects: "snd (call_sdk K L this call) = Inl e"
    if "ev \<in> set (fst (call_sdk K L this call))" and "outcome_of L ev = Rejects e"
    using call_sdk_surfaces [OF that(1), of e] that(2)
    by (cases call) simp_all
  have throws: "snd (call_sdk K L this call) =
        (case call of
           ClaimUcore _ \<Rightarrow> Inr (JError (prefixed (str ''Ucore [claimUcore] | '') e))
         | MintUAI _ _ \<Rightarrow> Inr (JError (prefixed (str ''Ucore [mintUAI] | '') e))
         | RepayUAI _ _ \<Rightarrow> Inr (JError (prefixed (str ''Ucore [repayUAI] | '') e))
         | _ \<Rightarrow> Inl e)"
    if "ev \<in> set (fst (call_sdk K L this call))" and "outcome_of L ev = Throws e"
    using call_sdk_surfaces [OF that(1), of e] that(2)
    by (cases call) simp_all
  from rejects throws
    getMintableUAI_status [of c K L this addr options r0 r1 rs s0]
    getMintableUAI_short [of c K L this addr options rs]
    claimUcore_getAddress [of this u e K L options]
    claimUcore_no_table [of this u n K L options]
    mintUAI_no_table [of this u n K L amount options a]
    repayUAI_no_table [of this u n K L amount options a]
  show ?thesis
    by blast
qed

lemma example_trx_events:
  "fst (claimUcore example_constants L example_ready []) =
     [Trx (example_controller_call ''claimUcore(address)'' [JString (str ''0x00000000000000000000000000000000000000aa'')] [])]"
  "fst (getMintableUAI example_constants L example_ready example_address []) =
     [Read (example_controller_call ''getMintableUAI'' [JString (str ''0xa0df350d2637096571F7A701CBc1C5fdE30dF76A'')] [])]"
  "fst (delegate example_constants L example_ready example_address []) =
     [Trx (example_ucore_call ''delegate'' [JString (str ''0xa0df350d2637096571F7A701CBc1C5fdE30dF76A'')])]"
  "fst (enterMarkets example_constants L example_ready (JArray []) []) =
     [Trx (example_markets_call [])]"
  by (simp_all add: claimUcore_def getMintableUAI_def delegate_def enterMarkets_def
      address_argument_def example_address_def example_checksum_lower [unfolded str_def, simplified]
      contract_address_def netId_def user_address_def example_ready_def
      on_network_def example_pending_def example_provider_def example_constants_def
      example_mainnet_def example_controller_call_def example_ucore_call_def
      example_markets_call_def table_entry_def trx_options_def spread_def Let_def str_def)

lemma example_amount:
  "amount_argument example_lib p (JBigNumber 7) [(''mantissa'', Val (JBoolean True))] = Inr (JBigNumber 7)"
  "amount_argument example_lib_rejecting p (JBigNumber 7) [(''mantissa'', Val (JBoolean True))] = Inr (JBigNumber 7)"
  "amount_argument example_lib_throwing p (JBigNumber 7) [(''mantissa'', Val (JBoolean True))] = Inr (JBigNumber 7)"
  by (simp_all add: amount_argument_def option_of_def method_toString_def
      example_lib_rejecting_def example_lib_throwing_def example_lib_def)

lemma example_trx_events_rejecting:
  "fst (mintUAI example_constants example_lib_rejecting example_ready (JBigNumber 7) [(''mantissa'', Val (JBoolean True))]) =
     [Trx (example_controller_call ''mintUAI'' [JBigNumber 7] [(''mantissa'', Val (JBoolean True))])]"
  "fst (repayUAI example_constants example_lib_rejecting example_ready (JBigNumber 7) [(''mantissa'', Val (JBoolean True))]) =
     [Trx (example_controller_call ''repayUAI'' [JBigNumber 7] [(''mantissa'', Val (JBoolean True))])]"
  by (simp_all add: mintUAI_def repayUAI_def example_amount contract_address_def netId_def
      example_ready_def on_network_def example_pending_def example_constants_def
      example_mainnet_def example_controller_call_def table_entry_def trx_options_def spread_def
      Let_def str_def)

lemma example_trx_events_throwing:
  "fst (mintUAI example_constants example_lib_throwing example_ready (JBigNumber 7) [(''mantissa'', Val (JBoolean True))]) =
     [Trx (example_controller_call ''mintUAI'' [JBigNumber 7] [(''mantissa'', Val (JBoolean True))])]"
  "fst (repayUAI example_constants example_lib_throwing example_ready (JBigNumber 7) [(''mantissa'', Val (JBoolean True))]) =
     [Trx (example_controller_call ''repayUAI'' [JBigNumber 7] [(''mantissa'', Val (JBoolean True))])]"
  by (simp_all add: mintUAI_def repayUAI_def example_amount contract_address_def netId_def
      example_ready_def on_network_def example_pending_def example_constants_def
      example_mainnet_def example_controller_call_def table_entry_def trx_options_def spread_def
      Let_def str_def)

theorem client_rejections_pass_unchanged_witness:
  "snd (getMintableUAI example_constants example_lib_rejecting example_ready example_address [])
     = Inl example_error
   \<and> snd (claimUcore example_constants example_lib_rejecting example_ready []) = Inl example_error
   \<and> snd (mintUAI example_constants example_lib_rejecting example_ready (JBigNumber 7)
            [(''mantissa'', Val (JBoolean True))]) = Inl example_error
   \<and> snd (repayUAI example_constants example_lib_rejecting example_ready (JBigNumber 7)
            [(''mantissa'', Val (JBoolean True))]) = Inl example_error
   \<and> snd (delegate example_constants example_lib_rejecting example_ready example_address [])
     = Inl example_error
   \<and> snd (enterMarkets example_constants example_lib_throwing example_ready (JArray []) [])
     = Inl example_error
   \<and> snd (getMintableUAI example_constants example_lib_status example_ready example_address [])
       = Inl (Error (str ''Ucore [getMintableUAI] | Contract error occured''))
   \<and> snd (getMintableUAI example_constants (example_lib\<lparr>eth_read := (\<lambda>c. Resolves (JArray []))\<rparr>)
            example_ready example_address [])
       = Inl (Error (str ''Ucore [getMintableUAI] | Contract error occured''))
   \<and> snd (claimUcore example_constants example_lib_throwing example_ready [])
       = Inr (JError \<lparr>err_name = ''Error'', err_message = str ''Ucore [claimUcore] | execution reverted''\<rparr>)
   \<and> snd (mintUAI example_constants example_lib_throwing example_ready (JBigNumber 7)
            [(''mantissa'', Val (JBoolean True))])
       = Inr (JError \<lparr>err_name = ''Error'', err_message = str ''Ucore [mintUAI] | execution reverted''\<rparr>)
   \<and> snd (repayUAI example_constants example_lib_throwing example_ready (JBigNumber 7)
            [(''mantissa'', Val (JBoolean True))])
       = Inr (JError \<lparr>err_name = ''Error'', err_message = str ''Ucore [repayUAI] | execution reverted''\<rparr>)
   \<and> claimUcore example_constants example_lib example_no_account [] =
       ([], Inr (JError \<lparr>err_name = ''Error'', err_message = str ''Ucore [claimUcore] | unknown account #0''\<rparr>))
   \<and> claimUcore example_constants example_lib example_elsewhere [] =
       ([], Inr (JError (prefixed (str ''Ucore [claimUcore] | '') (undefined_property (str ''Controller'')))))
   \<and> mintUAI example_constants example_lib example_elsewhere (JBigNumber 7) [(''mantissa'', Val (JBoolean True))] =
       ([], Inr (JError (prefixed (str ''Ucore [mintUAI] | '') (undefined_property (str ''Controller'')))))
     \<and> repayUAI example_constants example_lib example_elsewhere (JBigNumber 7) [(''mantissa'', Val (JBoolean True))] =
       ([], Inr (JError (prefixed (str ''Ucore [repayUAI] | '') (undefined_property (str ''Controller'')))))"
proof -
  have n_acc: "netId example_no_account = Inr example_no_account"
    by (simp add: netId_def example_no_account_def example_ready_def on_network_def)
  have ua: "\<not> truthy (p_address (inst_provider example_no_account))"
    "p_getAddress (inst_provider example_no_account)
       = Some (Inl \<lparr>err_name = ''Error'', err_message = str ''unknown account #0''\<rparr>)"
    by (simp_all add: example_no_account_def)
  have elsewhere: "netId example_elsewhere = Inr example_elsewhere"
    "inst_network example_elsewhere = Some \<lparr>net_id = 5, net_name = str ''goerli''\<rparr>"
    "map_of (address example_constants) (str ''goerli'') = None"
    "p_getAddress (inst_provider example_elsewhere) = None"
    by (simp_all add: netId_def example_elsewhere_def example_ready_def on_network_def
        example_pending_def example_provider_def example_constants_def str_eq_iff)
  have rj: "eth_read example_lib_rejecting c = Rejects example_error"
    "eth_trx example_lib_rejecting c = Rejects example_error" for c
    by (simp_all add: example_lib_rejecting_def)
  have th: "eth_trx example_lib_throwing c = Throws example_error" for c
    by (simp add: example_lib_throwing_def)
  have st: "eth_read example_lib_status c = Resolves (JArray [JBigNumber 1, JBigNumber 0])"
    "method_toString example_lib_status (JBigNumber 1) = Inr (str ''1'')"
    "str ''1'' \<noteq> str ''0''" for c
    by (simp_all add: example_lib_status_def example_lib_def method_toString_def str_eq_iff)
  note ev = example_trx_events
  note ev_rejecting = example_trx_events_rejecting
  note ev_throwing = example_trx_events_throwing
  have g1: "snd (getMintableUAI example_constants example_lib_rejecting example_ready example_address [])
     = Inl example_error"
    using client_rejections_pass_unchanged [where ev = "Read (example_controller_call ''getMintableUAI'' [JString (str ''0xa0df350d2637096571F7A701CBc1C5fdE30dF76A'')] [])"
        and K = "example_constants"
        and L = "example_lib_rejecting"
        and this = "example_ready"
        and call = "GetMintableUAI example_address []"
        and e = "example_error"
        and c = "example_controller_call ''getMintableUAI'' [JString (str ''0xa0df350d2637096571F7A701CBc1C5fdE30dF76A'')] []"
        and addr = "example_address"
        and options = "[]"
        and ?r0.0 = "JBigNumber 1"
        and ?r1.0 = "JBigNumber 0"
        and rs = "[]"
        and ?s0.0 = "str ''1''"
        and u = "example_ready"
        and n = "example_mainnet"
        and amount = "JBigNumber 7"
        and a = "JBigNumber 7"]
    by (simp add: ev rj)
  have g2: "snd (claimUcore example_constants example_lib_rejecting example_ready []) = Inl example_error"
    using client_rejections_pass_unchanged [where ev = "Trx (example_controller_call ''claimUcore(address)'' [JString (str ''0x00000000000000000000000000000000000000aa'')] [])"
        and K = "example_constants"
        and L = "example_lib_rejecting"
        and this = "example_ready"
        and call = "ClaimUcore []"
        and e = "example_error"
        and c = "example_controller_call ''getMintableUAI'' [JString (str ''0xa0df350d2637096571F7A701CBc1C5fdE30dF76A'')] []"
        and addr = "example_address"
        and options = "[]"
        and ?r0.0 = "JBigNumber 1"
        and ?r1.0 = "JBigNumber 0"
        and rs = "[]"
        and ?s0.0 = "str ''1''"
        and u = "example_ready"
        and n = "example_mainnet"
        and amount = "JBigNumber 7"
        and a = "JBigNumber 7"]
    by (simp add: ev rj)
  have g3: "snd (mintUAI example_constants example_lib_rejecting example_ready (JBigNumber 7)
            [(''mantissa'', Val (JBoolean True))]) = Inl example_error"
    using client_rejections_pass_unchanged [where ev = "Trx (example_controller_call ''mintUAI'' [JBigNumber 7] [(''mantissa'', Val (JBoolean True))])"
        and K = "example_constants"
        and L = "example_lib_rejecting"
        and this = "example_ready"
        and call = "MintUAI (JBigNumber 7) [(''mantissa'', Val (JBoolean True))]"
        and e = "example_error"
        and c = "example_controller_call ''getMintableUAI'' [JString (str ''0xa0df350d2637096571F7A701CBc1C5fdE30dF76A'')] []"
        and addr = "example_address"
        and options = "[]"
        and ?r0.0 = "JBigNumber 1"
        and ?r1.0 = "JBigNumber 0"
        and rs = "[]"
        and ?s0.0 = "str ''1''"
        and u = "example_ready"
        and n = "example_mainnet"
        and amount = "JBigNumber 7"
        and a = "JBigNumber 7"]
    by (simp add: ev_rejecting rj)
  have g4: "snd (repayUAI example_constants example_lib_rejecting example_ready (JBigNumber 7)
            [(''mantissa'', Val (JBoolean True))]) = Inl example_error"
    using client_rejections_pass_unchanged [where ev = "Trx (example_controller_call ''repayUAI'' [JBigNumber 7] [(''mantissa'', Val (JBoolean True))])"
        and K = "example_constants"
        and L = "example_lib_rejecting"
        and this = "example_ready"
        and call = "RepayUAI (JBigNumber 7) [(''mantissa'', Val (JBoolean True))]"
        and e = "example_error"
        and c = "example_controller_call ''getMintableUAI'' [JString (str ''0xa0df350d2637096571F7A701CBc1C5fdE30dF76A'')] []"
        and addr = "example_address"
        and options = "[]"
        and ?r0.0 = "JBigNumber 1"
        and ?r1.0 = "JBigNumber 0"
        and rs = "[]"
        and ?s0.0 = "str ''1''"
        and u = "example_ready"
        and n = "example_mainnet"
        and amount = "JBigNumber 7"
        and a = "JBigNumber 7"]
    by (simp add: ev_rejecting rj)
  have g5: "snd (delegate example_constants example_lib_rejecting example_ready example_address [])
     = Inl example_error"
    using client_rejections_pass_unchanged [where ev = "Trx (example_ucore_call ''delegate'' [JString (str ''0xa0df350d2637096571F7A701CBc1C5fdE30dF76A'')])"
        and K = "example_constants"
        and L = "example_lib_rejecting"
        and this = "example_ready"
        and call = "Delegate example_address []"
        and e = "example_error"
        and c = "example_controller_call ''getMintableUAI'' [JString (str ''0xa0df350d2637096571F7A701CBc1C5fdE30dF76A'')] []"
        and addr = "example_address"
        and options = "[]"
        and ?r0.0 = "JBigNumber 1"
        and ?r1.0 = "JBigNumber 0"
        and rs = "[]"
        and ?s0.0 = "str ''1''"
        and u = "example_ready"
        and n = "example_mainnet"
        and amount = "JBigNumber 7"
        and a = "JBigNumber 7"]
    by (simp add: ev rj)
  have g6: "snd (enterMarkets example_constants example_lib_throwing example_ready (JArray []) [])
     = Inl example_error"
    using client_rejections_pass_unchanged [where ev = "Trx (example_markets_call [])"
        and K = "example_constants"
        and L = "example_lib_throwing"
        and this = "example_ready"
        and call = "EnterMarkets (JArray []) []"
        and e = "example_error"
        and c = "example_controller_call ''getMintableUAI'' [JString (str ''0xa0df350d2637096571F7A701CBc1C5fdE30dF76A'')] []"
        and addr = "example_address"
        and options = "[]"
        and ?r0.0 = "JBigNumber 1"
        and ?r1.0 = "JBigNumber 0"
        and rs = "[]"
        and ?s0.0 = "str ''1''"
        and u = "example_ready"
        and n = "example_mainnet"
        and amount = "JBigNumber 7"
        and a = "JBigNumber 7"]
    by (simp add: ev th)
  have g7: "snd (getMintableUAI example_constants example_lib_status example_ready example_address [])
       = Inl (Error (str ''Ucore [getMintableUAI] | Contract error occured''))"
    using client_rejections_pass_unchanged [where ev = "Read (example_controller_call ''getMintableUAI'' [JString (str ''0xa0df350d2637096571F7A701CBc1C5fdE30dF76A'')] [])"
        and K = "example_constants"
        and L = "example_lib_status"
        and this = "example_ready"
        and call = "GetMintableUAI example_address []"
        and e = "example_error"
        and c = "example_controller_call ''getMintableUAI'' [JString (str ''0xa0df350d2637096571F7A701CBc1C5fdE30dF76A'')] []"
        and addr = "example_address"
        and options = "[]"
        and ?r0.0 = "JBigNumber 1"
        and ?r1.0 = "JBigNumber 0"
        and rs = "[]"
        and ?s0.0 = "str ''1''"
        and u = "example_ready"
        and n = "example_mainnet"
        and amount = "JBigNumber 7"
        and a = "JBigNumber 7"]
    by (simp add: ev st)
  have g8: "snd (getMintableUAI example_constants (example_lib\<lparr>eth_read := (\<lambda>c. Resolves (JArray []))\<rparr>)
            example_ready example_address [])
       = Inl (Error (str ''Ucore [getMintableUAI] | Contract error occured''))"
    using client_rejections_pass_unchanged [where ev = "Read (example_controller_call ''getMintableUAI'' [JString (str ''0xa0df350d2637096571F7A701CBc1C5fdE30dF76A'')] [])"
        and K = "example_constants"
        and L = "example_lib\<lparr>eth_read := (\<lambda>c. Resolves (JArray []))\<rparr>"
        and this = "example_ready"
        and call = "GetMintableUAI example_address []"
        and e = "example_error"
        and c = "example_controller_call ''getMintableUAI'' [JString (str ''0xa0df350d2637096571F7A701CBc1C5fdE30dF76A'')] []"
        and addr = "example_address"
        and options = "[]"
        and ?r0.0 = "JBigNumber 1"
        and ?r1.0 = "JBigNumber 0"
        and rs = "[]"
        and ?s0.0 = "str ''1''"
        and u = "example_ready"
        and n = "example_mainnet"
        and amount = "JBigNumber 7"
        and a = "JBigNumber 7"]
    by (simp add: ev)
  have g9: "snd (claimUcore example_constants example_lib_throwing example_ready [])
       = Inr (JError \<lparr>err_name = ''Error'', err_message = str ''Ucore [claimUcore] | execution reverted''\<rparr>)"
    using client_rejections_pass_unchanged [where ev = "Trx (example_controller_call ''claimUcore(address)'' [JString (str ''0x00000000000000000000000000000000000000aa'')] [])"
        and K = "example_constants"
        and L = "example_lib_throwing"
        and this = "example_ready"
        and call = "ClaimUcore []"
        and e = "example_error"
        and c = "example_controller_call ''getMintableUAI'' [JString (str ''0xa0df350d2637096571F7A701CBc1C5fdE30dF76A'')] []"
        and addr = "example_address"
        and options = "[]"
        and ?r0.0 = "JBigNumber 1"
        and ?r1.0 = "JBigNumber 0"
        and rs = "[]"
        and ?s0.0 = "str ''1''"
        and u = "example_ready"
        and n = "example_mainnet"
        and amount = "JBigNumber 7"
        and a = "JBigNumber 7"]
    by (simp add: ev th prefixed_def example_error_def str_def)
  have g10: "snd (mintUAI example_constants example_lib_throwing example_ready (JBigNumber 7)
            [(''mantissa'', Val (JBoolean True))])
       = Inr (JError \<lparr>err_name = ''Error'', err_message = str ''Ucore [mintUAI] | execution reverted''\<rparr>)"
    using client_rejections_pass_unchanged [where ev = "Trx (example_controller_call ''mintUAI'' [JBigNumber 7] [(''mantissa'', Val (JBoolean True))])"
        and K = "example_constants"
        and L = "example_lib_throwing"
        and this = "example_ready"
        and call = "MintUAI (JBigNumber 7) [(''mantissa'', Val (JBoolean True))]"
        and e = "example_error"
        and c = "example_controller_call ''getMintableUAI'' [JString (str ''0xa0df350d2637096571F7A701CBc1C5fdE30dF76A'')] []"
        and addr = "example_address"
        and options = "[]"
        and ?r0.0 = "JBigNumber 1"
        and ?r1.0 = "JBigNumber 0"
        and rs = "[]"
        and ?s0.0 = "str ''1''"
        and u = "example_ready"
        and n = "example_mainnet"
        and amount = "JBigNumber 7"
        and a = "JBigNumber 7"]
    by (simp add: ev_throwing th prefixed_def example_error_def str_def)
  have g11: "snd (repayUAI example_constants example_lib_throwing example_ready (JBigNumber 7)
            [(''mantissa'', Val (JBoolean True))])
       = Inr (JError \<lparr>err_name = ''Error'', err_message = str ''Ucore [repayUAI] | execution reverted''\<rparr>)"
    using client_rejections_pass_unchanged [where ev = "Trx (example_controller_call ''repayUAI'' [JBigNumber 7] [(''mantissa'', Val (JBoolean True))])"
        and K = "example_constants"
        and L = "example_lib_throwing"
        and this = "example_ready"
        and call = "RepayUAI (JBigNumber 7) [(''mantissa'', Val (JBoolean True))]"
        and e = "example_error"
        and c = "example_controller_call ''getMintableUAI'' [JString (str ''0xa0df350d2637096571F7A701CBc1C5fdE30dF76A'')] []"
        and addr = "example_address"
        and options = "[]"
        and ?r0.0 = "JBigNumber 1"
        and ?r1.0 = "JBigNumber 0"
        and rs = "[]"
        and ?s0.0 = "str ''1''"
        and u = "example_ready"
        and n = "example_mainnet"
        and amount = "JBigNumber 7"
        and a = "JBigNumber 7"]
    by (simp add: ev_throwing th prefixed_def example_error_def str_def)
  have g12: "claimUcore example_constants example_lib example_no_account [] =
       ([], Inr (JError \<lparr>err_name = ''Error'', err_message = str ''Ucore [claimUcore] | unknown account #0''\<rparr>))"
    using client_rejections_pass_unchanged [where ev = "Read (example_controller_call ''getMintableUAI'' [JString (str ''0xa0df350d2637096571F7A701CBc1C5fdE30dF76A'')] [])"
        and K = "example_constants"
        and L = "example_lib"
        and this = "example_no_account"
        and call = "GetMintableUAI example_address []"
        and e = "\<lparr>err_name = ''Error'', err_message = str ''unknown account #0''\<rparr>"
        and c = "example_controller_call ''getMintableUAI'' [JString (str ''0xa0df350d2637096571F7A701CBc1C5fdE30dF76A'')] []"
        and addr = "example_address"
        and options = "[]"
        and ?r0.0 = "JBigNumber 1"
        and ?r1.0 = "JBigNumber 0"
        and rs = "[]"
        and ?s0.0 = "str ''1''"
        and u = "example_no_account"
        and n = "example_mainnet"
        and amount = "JBigNumber 7"
        and a = "JBigNumber 7"]
    by (simp add: n_acc ua prefixed_def str_def)
  have g13: "claimUcore example_constants example_lib example_elsewhere [] =
       ([], Inr (JError (prefixed (str ''Ucore [claimUcore] | '') (undefined_property (str ''Controller'')))))"
    using client_rejections_pass_unchanged [where ev = "Read (example_controller_call ''getMintableUAI'' [JString (str ''0xa0df350d2637096571F7A701CBc1C5fdE30dF76A'')] [])"
        and K = "example_constants"
        and L = "example_lib"
        and this = "example_elsewhere"
        and call = "GetMintableUAI example_address []"
        and e = "example_error"
        and c = "example_controller_call ''getMintableUAI'' [JString (str ''0xa0df350d2637096571F7A701CBc1C5fdE30dF76A'')] []"
        and addr = "example_address"
        and options = "[]"
        and ?r0.0 = "JBigNumber 1"
        and ?r1.0 = "JBigNumber 0"
        and rs = "[]"
        and ?s0.0 = "str ''1''"
        and u = "example_elsewhere"
        and n = "\<lparr>net_id = 5, net_name = str ''goerli''\<rparr>"
        and amount = "JBigNumber 7"
        and a = "JBigNumber 7"]
    by (simp add: elsewhere)
  have g14: "mintUAI example_constants example_lib example_elsewhere (JBigNumber 7) [(''mantissa'', Val (JBoolean True))] =
       ([], Inr (JError (prefixed (str ''Ucore [mintUAI] | '') (undefined_property (str ''Controller'')))))
     \<and> repayUAI example_constants example_lib example_elsewhere (JBigNumber 7) [(''mantissa'', Val (JBoolean True))] =
       ([], Inr (JError (prefixed (str ''Ucore [repayUAI] | '') (undefined_property (str ''Controller'')))))"
    using client_rejections_pass_unchanged [where ev = "Read (example_controller_call ''getMintableUAI'' [JString (str ''0xa0df350d2637096571F7A701CBc1C5fdE30dF76A'')] [])"
        and K = "example_constants"
        and L = "example_lib"
        and this = "example_elsewhere"
        and call = "GetMintableUAI example_address []"
        and e = "example_error"
        and c = "example_controller_call ''getMintableUAI'' [JString (str ''0xa0df350d2637096571F7A701CBc1C5fdE30dF76A'')] []"
        and addr = "example_address"
        and options = "[(''mantissa'', Val (JBoolean True))]"
        and ?r0.0 = "JBigNumber 1"
        and ?r1.0 = "JBigNumber 0"
        and rs = "[]"
        and ?s0.0 = "str ''1''"
        and u = "example_elsewhere"
        and n = "\<lparr>net_id = 5, net_name = str ''goerli''\<rparr>"
        and amount = "JBigNumber 7"
        and a = "JBigNumber 7"]
    by (simp add: elsewhere example_amount)
  from g1 g2 g3 g4 g5 g6 g7 g8 g9 g10 g11 g12 g13 g14 show ?thesis
    by blast
qed

end
